theory Spec2Isabelle
  imports Complex_Main "HOL-Library.AList" "HOL-Library.Log_Nat"
begin

section \<open>DebateMaster BP: the analysis adapter and the screen state machine\<close>

text \<open>
  A shallow embedding of \<^verbatim>\<open>src/App.tsx\<close>: the request and response types, the
  simulated analyzer \<^verbatim>\<open>mockAnalyze\<close>, the remote analyzer \<^verbatim>\<open>cloudAnalyze\<close>, the hook
  \<^verbatim>\<open>useAnalysisAdapter\<close>, and the state held by the components \<^verbatim>\<open>App\<close> and
  \<^verbatim>\<open>Practice\<close> with their event handlers.

  Conventions. A JavaScript \<^verbatim>\<open>number\<close> is the \<^typ>\<open>real\<close> it stands for (NaN
  and the infinities are left out); a product or a sum of numbers is the exact one
  rounded to binary64, to the nearest and a tie to even. Every outcome of a call the
  program does not control is a parameter: the values returned by
  \<^verbatim>\<open>Math.random()\<close>, and the behaviour of \<^verbatim>\<open>fetch\<close>. A rejected promise or a thrown exception is the \<open>Inl\<close> of a
  sum type.
\<close>

subsection \<open>JavaScript values\<close>

text \<open>
  The value a response body decodes to is not checked against any type by the program
  (\<^verbatim>\<open>return data as AnalyzeResponse\<close> is a compile-time cast), so what
  \<^verbatim>\<open>cloudAnalyze\<close> returns is an arbitrary JavaScript value. An object is the list of
  its own properties in insertion order.
\<close>

datatype jsval =
    JUndefined
  | JNull
  | JBool bool
  | JNum real
  | JStr string
  | JArr "jsval list"
  | JObj "(string \<times> jsval) list"

datatype js_error =
    FetchRejected               \<comment> \<open>\<^verbatim>\<open>fetch\<close> rejected: no response was received\<close>
  | CloudAnalyzeFailed nat      \<comment> \<open>\<^verbatim>\<open>new Error('Cloud analyze failed: ' + r.status)\<close>\<close>
  | JsonSyntaxError             \<comment> \<open>\<^verbatim>\<open>r.json()\<close> rejected: the body is not JSON\<close>
  | TypeError                   \<comment> \<open>a property access on \<^verbatim>\<open>null\<close> or \<^verbatim>\<open>undefined\<close>\<close>

text \<open>Truthiness, as \<^verbatim>\<open>!x\<close> and \<^verbatim>\<open>x || y\<close> use it.\<close>

fun truthy :: "jsval \<Rightarrow> bool" where
  "truthy JUndefined = False"
| "truthy JNull = False"
| "truthy (JBool b) = b"
| "truthy (JNum x) = (x \<noteq> 0)"
| "truthy (JStr s) = (s \<noteq> [])"
| "truthy (JArr _) = True"
| "truthy (JObj _) = True"

text \<open>
  Reading \<^verbatim>\<open>v.k\<close>, for the property names the program reads from a decoded body
  (\<^verbatim>\<open>scores\<close>, \<^verbatim>\<open>matter\<close>, \<^verbatim>\<open>manner\<close>, \<^verbatim>\<open>method\<close>, \<^verbatim>\<open>total\<close>), none of which
  a prototype defines: on \<^verbatim>\<open>null\<close> and \<^verbatim>\<open>undefined\<close> the read throws a TypeError, on
  an object it gives the property or \<^verbatim>\<open>undefined\<close>, on every other value
  \<^verbatim>\<open>undefined\<close>.
\<close>

definition own_prop :: "(string \<times> jsval) list \<Rightarrow> string \<Rightarrow> jsval" where
  "own_prop kvs k = (case map_of kvs k of None \<Rightarrow> JUndefined | Some v \<Rightarrow> v)"

fun getProp :: "jsval \<Rightarrow> string \<Rightarrow> js_error + jsval" where
  "getProp JUndefined k = Inl TypeError"
| "getProp JNull k = Inl TypeError"
| "getProp (JObj kvs) k = Inr (own_prop kvs k)"
| "getProp _ k = Inr JUndefined"

text \<open>
  Writing \<^verbatim>\<open>v.k = x\<close>: an existing property keeps its place, a new one is appended.
  The file is an ES module, hence strict: the write throws on a primitive. Named
  properties of an array are not represented.
\<close>

fun setProp :: "jsval \<Rightarrow> string \<Rightarrow> jsval \<Rightarrow> js_error + jsval" where
  "setProp (JObj kvs) k x = Inr (JObj (AList.update k x kvs))"
| "setProp (JArr xs) k x = Inr (JArr xs)"
| "setProp _ k x = Inl TypeError"

subsection \<open>Requests and responses\<close>

text \<open>The sides, \<^verbatim>\<open>'OG'|'OO'|'CG'|'CO'\<close> (\<open>OO\<close> is an operator of HOL, hence the prefix).\<close>

datatype BpSide = side_OG | side_OO | side_CG | side_CO

record AnalyzeRequest =
  sessionId :: string
  motion :: string
  side :: BpSide
  durationSec :: real
  gcsUri :: "string option"
  audioBlobUrl :: "string option"
  uid :: "string option"

datatype Status = scored | failed | queued

datatype TimingStatus = ok | undertime | overtime

text \<open>The field \<^verbatim>\<open>method\<close> of the scores is \<open>method_score\<close>: the plain name is a command of Isabelle.\<close>

record Scores =
  matter :: real
  manner :: real
  method_score :: real
  total :: real

record Delivery =
  wpm :: real
  fillerPerMin :: real

record Timing =
  status :: TimingStatus
  t_notes :: "string option"

record Justification =
  j_matter :: "string list"
  j_manner :: "string list"
  j_method :: "string list"

record Actionable =
  title :: string
  why :: string
  how :: string

record Drill =
  name :: string
  instructions :: string

record Feedback =
  justification :: Justification
  actionables :: "Actionable list"
  drills :: "Drill list"

record AnalyzeResponse =
  r_status :: Status
  r_sessionId :: string
  transcript :: string
  scores :: Scores
  delivery :: Delivery
  timing :: Timing
  feedback :: Feedback
  rubricVersion :: string

subsection \<open>Numbers\<close>

text \<open>
  The binary64 numbers and the rounding of a real to the nearest of them, for the
  finite numbers: no result the program computes is near the overflow threshold.
  \<open>expo x\<close> is the exponent of the binade of a positive \<open>x\<close>, that is
  \<open>2 powi expo x \<le> x < 2 powi (expo x + 1)\<close>; \<open>quantum x\<close> is the exponent of the
  unit in the last place there, 52 below for a normal number and \<open>- 1074\<close> for a
  subnormal one.
\<close>

definition expo :: "real \<Rightarrow> int" where
  "expo x = (if 1 \<le> x then bitlen \<lfloor>x\<rfloor> - 1 else - bitlen (\<lceil>1 / x\<rceil> - 1))"

definition quantum :: "real \<Rightarrow> int" where
  "quantum x = max (expo x) (- 1022) - 52"

text \<open>The nearest integer, the even one of two nearest.\<close>

definition round_even :: "real \<Rightarrow> int" where
  "round_even y =
     (let n = \<lfloor>y\<rfloor>; r = y - of_int n
      in if r < 1 / 2 then n else if 1 / 2 < r then n + 1 else if even n then n else n + 1)"

definition round_pos :: "real \<Rightarrow> real" where
  "round_pos x = of_int (round_even (x / 2 powi quantum x)) * 2 powi quantum x"

definition fl :: "real \<Rightarrow> real" where
  "fl x = (if x < 0 then - round_pos (- x) else round_pos x)"

definition is_double :: "real \<Rightarrow> bool" where
  "is_double x = (fl x = x)"

text \<open>The operators \<^verbatim>\<open>*\<close> and \<^verbatim>\<open>+\<close> on numbers.\<close>

definition mul64 :: "real \<Rightarrow> real \<Rightarrow> real" where
  "mul64 x y = fl (x * y)"

definition add64 :: "real \<Rightarrow> real \<Rightarrow> real" where
  "add64 x y = fl (x + y)"

subsection \<open>The simulated analyzer\<close>

text \<open>
  \<^verbatim>\<open>mockAnalyze\<close> calls \<^verbatim>\<open>Math.random()\<close> five times, in this order; each call
  returns a binary64 number \<open>u\<close> with \<open>0 \<le> u < 1\<close>.
\<close>

record Draws =
  u_matter :: real
  u_manner :: real
  u_method :: real
  u_wpm :: real
  u_filler :: real

definition unit_interval :: "real \<Rightarrow> bool" where
  "unit_interval u = (is_double u \<and> 0 \<le> u \<and> u < 1)"

definition valid_draws :: "Draws \<Rightarrow> bool" where
  "valid_draws d =
     (unit_interval (u_matter d) \<and> unit_interval (u_manner d) \<and> unit_interval (u_method d) \<and>
      unit_interval (u_wpm d) \<and> unit_interval (u_filler d))"

definition Math_floor :: "real \<Rightarrow> real" where
  "Math_floor x = of_int \<lfloor>x\<rfloor>"

text \<open>\<^verbatim>\<open>Math.round\<close> rounds to the nearest integer, a half towards plus infinity.\<close>

definition Math_round :: "real \<Rightarrow> real" where
  "Math_round x = of_int \<lfloor>x + 1 / 2\<rfloor>"

text \<open>
  \<^verbatim>\<open>+(x).toFixed(2)\<close>: \<^verbatim>\<open>toFixed\<close> writes the nearest multiple of a hundredth, the
  larger one of two nearest, and the unary plus reads it back as the nearest number.
\<close>

definition toFixed2 :: "real \<Rightarrow> real" where
  "toFixed2 x = fl (of_int \<lfloor>x * 100 + 1 / 2\<rfloor> / 100)"

definition timingStatus :: "real \<Rightarrow> TimingStatus" where
  "timingStatus d = (if d < 390 then undertime else if d > 435 then overtime else ok)"

definition mock_transcript :: string where
  "mock_transcript =
     ''Thank you, chair. Our bench advances two arguments on harm reduction and democratic accountability...''"

definition mock_feedback :: Feedback where
  "mock_feedback = \<lparr>
     justification = \<lparr>
       j_matter = [''Clear claim structure'', ''Could deepen comparative weighing''],
       j_manner = [''Good clarity'', ''Signposting can be sharper''],
       j_method = [''Role mostly fulfilled'', ''Timing close to limit''] \<rparr>,
     actionables = [
       \<lparr> title = ''Sharper signposting'', why = ''Judge navigation'',
         how = ''Label arguments & subpoints (A/B/C)'' \<rparr>,
       \<lparr> title = ''Frontload clash'', why = ''Directly engage opp'',
         how = ''Open with strongest refutation then rebuild'' \<rparr>],
     drills = [
       \<lparr> name = ''60s signpost drill'',
         instructions = ''Open with roadmap; label arguments and subpoints clearly.'' \<rparr>,
       \<lparr> name = ''Rebuttal ladder'',
         instructions = ''Write 3 attacks escalating in strength on the same claim.'' \<rparr>] \<rparr>"

text \<open>
  The delay of 800 ms (\<^verbatim>\<open>setTimeout\<close>) has no effect on the value. Nothing in the body
  can throw, so the result is a plain value.
\<close>

definition mockAnalyze :: "Draws \<Rightarrow> AnalyzeRequest \<Rightarrow> AnalyzeResponse" where
  "mockAnalyze d req =
     (let matter' = add64 24 (Math_floor (mul64 (u_matter d) 10));
          manner' = add64 22 (Math_floor (mul64 (u_manner d) 10));
          method' = add64 12 (Math_floor (mul64 (u_method d) 8));
          total' = add64 (add64 matter' manner') method';
          wpm' = Math_round (add64 120 (mul64 (u_wpm d) 80));
          fillerPerMin' = toFixed2 (mul64 (u_filler d) 2)
      in \<lparr> r_status = scored,
           r_sessionId = sessionId req,
           transcript = mock_transcript,
           scores = \<lparr> matter = matter', manner = manner', method_score = method', total = total' \<rparr>,
           delivery = \<lparr> wpm = wpm', fillerPerMin = fillerPerMin' \<rparr>,
           timing = \<lparr> status = timingStatus (durationSec req), t_notes = None \<rparr>,
           feedback = mock_feedback,
           rubricVersion = ''bp_v1.3'' \<rparr>)"

text \<open>
  The object literal \<^verbatim>\<open>mockAnalyze\<close> returns, as a JavaScript value: the adapter hands
  it to its caller where it would have handed the decoded body of the remote service.
\<close>

definition side_name :: "BpSide \<Rightarrow> string" where
  "side_name s = (case s of side_OG \<Rightarrow> ''OG'' | side_OO \<Rightarrow> ''OO'' | side_CG \<Rightarrow> ''CG''
      | side_CO \<Rightarrow> ''CO'')"

definition status_name :: "Status \<Rightarrow> string" where
  "status_name s = (case s of scored \<Rightarrow> ''scored'' | failed \<Rightarrow> ''failed'' | queued \<Rightarrow> ''queued'')"

definition timing_name :: "TimingStatus \<Rightarrow> string" where
  "timing_name t =
     (case t of ok \<Rightarrow> ''ok'' | undertime \<Rightarrow> ''undertime'' | overtime \<Rightarrow> ''overtime'')"

definition scores_object :: "Scores \<Rightarrow> jsval" where
  "scores_object sc =
     JObj [(''matter'', JNum (matter sc)), (''manner'', JNum (manner sc)),
           (''method'', JNum (method_score sc)), (''total'', JNum (total sc))]"

definition strings_array :: "string list \<Rightarrow> jsval" where
  "strings_array xs = JArr (map JStr xs)"

definition feedback_object :: "Feedback \<Rightarrow> jsval" where
  "feedback_object fb =
     JObj [(''justification'',
              JObj [(''matter'', strings_array (j_matter (justification fb))),
                    (''manner'', strings_array (j_manner (justification fb))),
                    (''method'', strings_array (j_method (justification fb)))]),
           (''actionables'',
              JArr (map (\<lambda>a. JObj [(''title'', JStr (title a)), (''why'', JStr (why a)),
                                     (''how'', JStr (how a))]) (actionables fb))),
           (''drills'',
              JArr (map (\<lambda>d. JObj [(''name'', JStr (name d)),
                                     (''instructions'', JStr (instructions d))]) (drills fb)))]"

definition response_object :: "AnalyzeResponse \<Rightarrow> jsval" where
  "response_object r =
     JObj [(''status'', JStr (status_name (r_status r))),
           (''sessionId'', JStr (r_sessionId r)),
           (''transcript'', JStr (transcript r)),
           (''scores'', scores_object (scores r)),
           (''delivery'', JObj [(''wpm'', JNum (wpm (delivery r))),
                                (''fillerPerMin'', JNum (fillerPerMin (delivery r)))]),
           (''timing'',
              JObj ((''status'', JStr (timing_name (status (timing r)))) #
                    (case t_notes (timing r) of None \<Rightarrow> [] | Some n \<Rightarrow> [(''notes'', JStr n)]))),
           (''feedback'', feedback_object (feedback r)),
           (''rubricVersion'', JStr (rubricVersion r))]"

subsection \<open>The remote analyzer\<close>

definition ANALYZE_URL :: string where
  "ANALYZE_URL = ''https://n8n.artificialartz.xyz/webhook/analyze''"

text \<open>
  What a call of \<^verbatim>\<open>fetch\<close> comes to: the promise rejects (no response), or it
  resolves to a response with a status code and a body. Of the body only what
  \<^verbatim>\<open>r.json()\<close> makes of it matters: \<open>None\<close> when it is not JSON, so that
  \<^verbatim>\<open>r.json()\<close> rejects. The service is a function of the URL and of the object that
  is sent as the body.
\<close>

datatype fetch_result =
    Rejected
  | Response nat "jsval option"

type_synonym fetch = "string \<Rightarrow> jsval \<Rightarrow> fetch_result"

text \<open>\<^verbatim>\<open>r.ok\<close> is true for the status codes 200 to 299.\<close>

definition response_ok :: "nat \<Rightarrow> bool" where
  "response_ok st = (200 \<le> st \<and> st \<le> 299)"

text \<open>\<^verbatim>\<open>s || d\<close> for an optional string \<open>s\<close>: \<open>d\<close> when \<open>s\<close> is absent or empty.\<close>

definition or_string :: "string option \<Rightarrow> string \<Rightarrow> string" where
  "or_string s d = (case s of None \<Rightarrow> d | Some x \<Rightarrow> if x = [] then d else x)"

definition request_body :: "AnalyzeRequest \<Rightarrow> jsval" where
  "request_body req =
     JObj [(''sessionId'', JStr (sessionId req)),
           (''motion'', JStr (motion req)),
           (''side'', JStr (side_name (side req))),
           (''durationSec'', JNum (durationSec req)),
           (''gcsUri'', JStr (or_string (gcsUri req) [])),
           (''uid'', JStr (or_string (uid req) ''demo-user''))]"

text \<open>
  Lines 84 to 86 of the source, on the decoded body \<open>data\<close>:
  \<^verbatim>\<open>if (!data.scores && data.matter !== undefined) data.scores = {...}\<close>.
\<close>

definition normalize_scores :: "jsval \<Rightarrow> js_error + jsval" where
  "normalize_scores data =
     (case getProp data ''scores'' of
        Inl e \<Rightarrow> Inl e
      | Inr sc \<Rightarrow>
          if truthy sc then Inr data
          else (case getProp data ''matter'' of
                  Inl e \<Rightarrow> Inl e
                | Inr m \<Rightarrow>
                    if m = JUndefined then Inr data
                    else (case getProp data ''manner'' of
                            Inl e \<Rightarrow> Inl e
                          | Inr mn \<Rightarrow>
                              (case getProp data ''method'' of
                                 Inl e \<Rightarrow> Inl e
                               | Inr mt \<Rightarrow>
                                   (case getProp data ''total'' of
                                      Inl e \<Rightarrow> Inl e
                                    | Inr t \<Rightarrow>
                                        setProp data ''scores''
                                          (JObj [(''matter'', m), (''manner'', mn),
                                                 (''method'', mt), (''total'', t)]))))))"

text \<open>
  What an analyzer did: the value its promise resolved to or the error it rejected
  with, the requests it sent (URL and body), and what it wrote with
  \<^verbatim>\<open>console.warn\<close>.
\<close>

record Outcome =
  result :: "js_error + jsval"
  posts :: "(string \<times> jsval) list"
  warned :: "js_error list"

definition cloudAnalyze :: "fetch \<Rightarrow> AnalyzeRequest \<Rightarrow> Outcome" where
  "cloudAnalyze f req =
     (let body = request_body req in
      \<lparr> result =
          (case f ANALYZE_URL body of
             Rejected \<Rightarrow> Inl FetchRejected
           | Response st b \<Rightarrow>
               if \<not> response_ok st then Inl (CloudAnalyzeFailed st)
               else (case b of
                       None \<Rightarrow> Inl JsonSyntaxError
                     | Some data \<Rightarrow> normalize_scores data)),
        posts = [(ANALYZE_URL, body)],
        warned = [] \<rparr>)"

subsection \<open>The analysis adapter\<close>

datatype Mode = mock | cloud

definition DEFAULT_MODE :: Mode where
  "DEFAULT_MODE = cloud"

text \<open>
  \<^verbatim>\<open>analyze\<close>, as \<^verbatim>\<open>useAnalysisAdapter\<close> builds it over the value \<open>mode\<close> of its
  state. In the \<^verbatim>\<open>try\<close> block \<^verbatim>\<open>mockAnalyze\<close> cannot throw; the \<^verbatim>\<open>catch\<close> block
  is entered from \<^verbatim>\<open>cloudAnalyze\<close> only.
\<close>

text \<open>
  What a call of \<^verbatim>\<open>analyze\<close> has sent when it returns its promise: \<^verbatim>\<open>fetch\<close> is
  called before the first \<^verbatim>\<open>await\<close>.
\<close>

definition analyze_sends :: "Mode \<Rightarrow> AnalyzeRequest \<Rightarrow> (string \<times> jsval) list" where
  "analyze_sends mode req = (if mode = cloud then [(ANALYZE_URL, request_body req)] else [])"

definition analyze :: "Mode \<Rightarrow> fetch \<Rightarrow> Draws \<Rightarrow> AnalyzeRequest \<Rightarrow> Outcome" where
  "analyze mode f d req =
     (if mode = cloud then
        (let c = cloudAnalyze f req in
         case result c of
           Inr v \<Rightarrow> c
         | Inl e \<Rightarrow> c \<lparr> result := Inr (response_object (mockAnalyze d req)),
                         warned := warned c @ [e] \<rparr>)
      else \<lparr> result = Inr (response_object (mockAnalyze d req)), posts = [], warned = [] \<rparr>)"

subsection \<open>The state of the components\<close>

datatype Screen = dashboard | practice | session

text \<open>
  The state of one mounted \<^verbatim>\<open>Practice\<close> component. \<^verbatim>\<open>Practice\<close> calls
  \<^verbatim>\<open>useAnalysisAdapter()\<close> itself, so it holds a \<open>mode\<close> state of its own
  (\<open>p_mode\<close>); it takes \<^verbatim>\<open>analyze\<close> from the hook and never \<^verbatim>\<open>setMode\<close>.
  \<open>timerRef\<close> tells whether the ref holds an interval handle. \<open>p_error\<close> is the
  error whose message is shown, \<open>None\<close> for the empty string. \<open>inst\<close> tells the
  mounted components apart.
\<close>

record Practice =
  inst :: nat
  p_mode :: Mode
  motionTxt :: string
  p_side :: BpSide
  isRecording :: bool
  seconds :: nat
  timerRef :: bool
  loading :: bool
  p_error :: "js_error option"

definition mount_Practice :: "nat \<Rightarrow> Practice" where
  "mount_Practice i =
     \<lparr> inst = i,
       p_mode = DEFAULT_MODE,
       motionTxt = ''This House would ban targeted political advertising on social media.'',
       p_side = side_OG,
       isRecording = False,
       seconds = 0,
       timerRef = False,
       loading = False,
       p_error = None \<rparr>"

definition start :: "Practice \<Rightarrow> Practice" where
  "start p = p \<lparr> isRecording := True, seconds := 0, timerRef := True \<rparr>"

definition stop :: "Practice \<Rightarrow> Practice" where
  "stop p = p \<lparr> isRecording := False, timerRef := False \<rparr>"

text \<open>The callback of the interval, \<^verbatim>\<open>setSeconds(s => s + 1)\<close>.\<close>

definition tick :: "Practice \<Rightarrow> Practice" where
  "tick p = p \<lparr> seconds := Suc (seconds p) \<rparr>"

text \<open>
  The first two statements of the \<^verbatim>\<open>try\<close> block of \<^verbatim>\<open>onAnalyzeClick\<close>. \<open>r\<close> is the
  string \<^verbatim>\<open>Math.random().toString(36)\<close>; \<^verbatim>\<open>slice(2,8)\<close> keeps at most six
  characters from the third on. \<^verbatim>\<open>seconds || 420\<close> is 420 when \<open>seconds\<close> is 0.
\<close>

definition new_sid :: "string \<Rightarrow> string" where
  "new_sid r = ''sess_'' @ take 6 (drop 2 r)"

definition new_request :: "Practice \<Rightarrow> string \<Rightarrow> AnalyzeRequest" where
  "new_request p sid =
     \<lparr> sessionId = sid,
       motion = motionTxt p,
       side = p_side p,
       durationSec = (if seconds p = 0 then 420 else real (seconds p)),
       gcsUri = None,
       audioBlobUrl = None,
       uid = Some ''demo-user'' \<rparr>"

text \<open>
  A call of \<^verbatim>\<open>onAnalyzeClick\<close> that waits at \<^verbatim>\<open>await analyze(req)\<close>: the component
  that made it, the mode its \<^verbatim>\<open>analyze\<close> closed over, and the locals \<open>sid\<close> and
  \<open>req\<close>.
\<close>

record Pending =
  owner :: nat
  pd_mode :: Mode
  pd_sid :: string
  pd_req :: AnalyzeRequest

text \<open>
  The state of \<^verbatim>\<open>App\<close>: its three states and the \<open>mode\<close> of its own call of
  \<^verbatim>\<open>useAnalysisAdapter()\<close>, which the header shows and the Toggle button flips.
  \<open>practice_c\<close> is the state of the \<^verbatim>\<open>Practice\<close> component, which is mounted exactly
  while \<open>screen\<close> is \<open>practice\<close> (the exit animation is left out); \<open>mounts\<close> counts
  the components mounted so far. \<open>network\<close> lists the requests in the order
  they were sent, \<open>console\<close> what was logged.
\<close>

record App =
  screen :: Screen
  app_sessionId :: string
  analysis :: jsval
  app_mode :: Mode
  practice_c :: Practice
  mounts :: nat
  pending :: "Pending list"
  network :: "(string \<times> jsval) list"
  console :: "js_error list"

definition initial :: App where
  "initial =
     \<lparr> screen = dashboard,
       app_sessionId = [],
       analysis = JNull,
       app_mode = DEFAULT_MODE,
       practice_c = mount_Practice 0,
       mounts = 0,
       pending = [],
       network = [],
       console = [] \<rparr>"

text \<open>
  \<^verbatim>\<open>setScreen\<close>: setting the current value changes nothing; entering \<open>practice\<close>
  mounts a new \<^verbatim>\<open>Practice\<close> with its initial state.
\<close>

definition setScreen :: "Screen \<Rightarrow> App \<Rightarrow> App" where
  "setScreen sc s =
     (if screen s = sc then s
      else if sc = practice
        then s \<lparr> screen := sc, practice_c := mount_Practice (mounts s), mounts := Suc (mounts s) \<rparr>
        else s \<lparr> screen := sc \<rparr>)"

text \<open>The prop \<^verbatim>\<open>onAnalyzed\<close> that \<^verbatim>\<open>App\<close> passes to \<^verbatim>\<open>Practice\<close>.\<close>

definition onAnalyzed :: "string \<Rightarrow> jsval \<Rightarrow> App \<Rightarrow> App" where
  "onAnalyzed sid resp s = setScreen session (s \<lparr> app_sessionId := sid, analysis := resp \<rparr>)"

text \<open>A state update of a \<^verbatim>\<open>Practice\<close> component: void once it is unmounted.\<close>

definition update_Practice :: "nat \<Rightarrow> (Practice \<Rightarrow> Practice) \<Rightarrow> App \<Rightarrow> App" where
  "update_Practice i g s =
     (if screen s = practice \<and> inst (practice_c s) = i
      then s \<lparr> practice_c := g (practice_c s) \<rparr> else s)"

text \<open>
  \<^verbatim>\<open>onAnalyzeClick\<close> up to its \<^verbatim>\<open>await\<close>: the call of \<^verbatim>\<open>analyze\<close> has sent its
  request.
\<close>

definition onAnalyzeClick :: "string \<Rightarrow> App \<Rightarrow> App" where
  "onAnalyzeClick r s =
     (let p = practice_c s;
          sid = new_sid r;
          req = new_request p sid
      in s \<lparr> practice_c := p \<lparr> loading := True, p_error := None \<rparr>,
             pending := pending s @
               [\<lparr> owner = inst p, pd_mode = p_mode p, pd_sid = sid, pd_req = req \<rparr>],
             network := network s @ analyze_sends (p_mode p) req \<rparr>)"

text \<open>
  \<^verbatim>\<open>onAnalyzeClick\<close> from its \<^verbatim>\<open>await\<close> on, when the promise of \<^verbatim>\<open>analyze\<close>
  settles: \<^verbatim>\<open>onAnalyzed(sid, resp)\<close> or the \<^verbatim>\<open>catch\<close> block, then \<^verbatim>\<open>finally\<close>.
  The service \<open>f\<close> tells how the request sent at the click was answered.
\<close>

definition resume :: "Pending \<Rightarrow> fetch \<Rightarrow> Draws \<Rightarrow> App \<Rightarrow> App" where
  "resume pd f d s =
     (let out = analyze (pd_mode pd) f d (pd_req pd);
          s1 = s \<lparr> console := console s @ warned out \<rparr>;
          s2 = (case result out of
                  Inr resp \<Rightarrow> onAnalyzed (pd_sid pd) resp s1
                | Inl e \<Rightarrow> update_Practice (owner pd) (\<lambda>p. p \<lparr> p_error := Some e \<rparr>) s1)
      in update_Practice (owner pd) (\<lambda>p. p \<lparr> loading := False \<rparr>) s2)"

text \<open>
  What can happen to the page. A button that is not rendered or is disabled gives no
  event, and the interval fires only while it is set.
\<close>

datatype Event =
    TabClick Screen             \<comment> \<open>a tab of the header\<close>
  | Toggle                      \<comment> \<open>the Toggle button of the header\<close>
  | StartPractice               \<comment> \<open>the button of the dashboard\<close>
  | EditMotion string
  | SelectSide BpSide
  | RecordClick
  | StopClick
  | Tick                        \<comment> \<open>the interval fires\<close>
  | AnalyzeClick string         \<comment> \<open>with the string \<^verbatim>\<open>Math.random().toString(36)\<close> gives\<close>
  | Settled nat fetch Draws     \<comment> \<open>the pending call of that index settles\<close>

fun step :: "App \<Rightarrow> Event \<Rightarrow> App" where
  "step s (TabClick sc) = setScreen sc s"
| "step s Toggle = s \<lparr> app_mode := (if app_mode s = cloud then mock else cloud) \<rparr>"
| "step s StartPractice = (if screen s = dashboard then setScreen practice s else s)"
| "step s (EditMotion t) =
     (if screen s = practice then s \<lparr> practice_c := (practice_c s) \<lparr> motionTxt := t \<rparr> \<rparr> else s)"
| "step s (SelectSide x) =
     (if screen s = practice then s \<lparr> practice_c := (practice_c s) \<lparr> p_side := x \<rparr> \<rparr> else s)"
| "step s RecordClick =
     (if screen s = practice \<and> \<not> isRecording (practice_c s)
      then s \<lparr> practice_c := start (practice_c s) \<rparr> else s)"
| "step s StopClick =
     (if screen s = practice \<and> isRecording (practice_c s)
      then s \<lparr> practice_c := stop (practice_c s) \<rparr> else s)"
| "step s Tick =
     (if screen s = practice \<and> timerRef (practice_c s)
      then s \<lparr> practice_c := tick (practice_c s) \<rparr> else s)"
| "step s (AnalyzeClick r) =
     (if screen s = practice \<and> \<not> loading (practice_c s) then onAnalyzeClick r s else s)"
| "step s (Settled k f d) =
     (if k < length (pending s)
      then resume (pending s ! k) f d (s \<lparr> pending := take k (pending s) @ drop (Suc k) (pending s) \<rparr>)
      else s)"

definition run :: "App \<Rightarrow> Event list \<Rightarrow> App" where
  "run s es = foldl step s es"

text \<open>
  What holds of every call that waits, in every state the page can reach: its
  \<^verbatim>\<open>analyze\<close> closed over the mode \<open>cloud\<close>, and its request carries its \<open>sid\<close>.
\<close>

definition pending_ok :: "Pending \<Rightarrow> bool" where
  "pending_ok pd = (pd_mode pd = cloud \<and> sessionId (pd_req pd) = pd_sid pd)"

definition adapter_inv :: "App \<Rightarrow> bool" where
  "adapter_inv s = (p_mode (practice_c s) = cloud \<and> list_all pending_ok (pending s))"

subsection \<open>The shape of a response\<close>

text \<open>
  The type \<^verbatim>\<open>AnalyzeResponse\<close> (lines 18 to 31 of the source) as a check on a
  JavaScript value: every field is there with a value of its type, \<^verbatim>\<open>notes\<close> being
  optional.
\<close>

definition is_string :: "jsval \<Rightarrow> bool" where
  "is_string v = (case v of JStr _ \<Rightarrow> True | _ \<Rightarrow> False)"

definition is_number :: "jsval \<Rightarrow> bool" where
  "is_number v = (case v of JNum _ \<Rightarrow> True | _ \<Rightarrow> False)"

definition is_one_of :: "string list \<Rightarrow> jsval \<Rightarrow> bool" where
  "is_one_of names v = (case v of JStr s \<Rightarrow> s \<in> set names | _ \<Rightarrow> False)"

definition is_array_of :: "(jsval \<Rightarrow> bool) \<Rightarrow> jsval \<Rightarrow> bool" where
  "is_array_of P v = (case v of JArr xs \<Rightarrow> list_all P xs | _ \<Rightarrow> False)"

definition has_field :: "(string \<times> jsval) list \<Rightarrow> string \<Rightarrow> (jsval \<Rightarrow> bool) \<Rightarrow> bool" where
  "has_field kvs k P = (case map_of kvs k of None \<Rightarrow> False | Some v \<Rightarrow> P v)"

definition optional_field :: "(string \<times> jsval) list \<Rightarrow> string \<Rightarrow> (jsval \<Rightarrow> bool) \<Rightarrow> bool" where
  "optional_field kvs k P = (case map_of kvs k of None \<Rightarrow> True | Some v \<Rightarrow> v = JUndefined \<or> P v)"

definition is_object :: "((string \<times> jsval) list \<Rightarrow> bool) \<Rightarrow> jsval \<Rightarrow> bool" where
  "is_object P v = (case v of JObj kvs \<Rightarrow> P kvs | _ \<Rightarrow> False)"

definition is_Scores :: "jsval \<Rightarrow> bool" where
  "is_Scores =
     is_object (\<lambda>ob. has_field ob ''matter'' is_number \<and> has_field ob ''manner'' is_number \<and>
                    has_field ob ''method'' is_number \<and> has_field ob ''total'' is_number)"

definition is_Feedback :: "jsval \<Rightarrow> bool" where
  "is_Feedback =
     is_object (\<lambda>ob.
       has_field ob ''justification''
         (is_object (\<lambda>j. has_field j ''matter'' (is_array_of is_string) \<and>
                         has_field j ''manner'' (is_array_of is_string) \<and>
                         has_field j ''method'' (is_array_of is_string))) \<and>
       has_field ob ''actionables''
         (is_array_of (is_object (\<lambda>a. has_field a ''title'' is_string \<and>
                                       has_field a ''why'' is_string \<and>
                                       has_field a ''how'' is_string))) \<and>
       has_field ob ''drills''
         (is_array_of (is_object (\<lambda>d. has_field d ''name'' is_string \<and>
                                       has_field d ''instructions'' is_string))))"

definition is_AnalyzeResponse :: "jsval \<Rightarrow> bool" where
  "is_AnalyzeResponse =
     is_object (\<lambda>ob.
       has_field ob ''status'' (is_one_of [''scored'', ''failed'', ''queued'']) \<and>
       has_field ob ''sessionId'' is_string \<and>
       has_field ob ''transcript'' is_string \<and>
       has_field ob ''scores'' is_Scores \<and>
       has_field ob ''delivery''
         (is_object (\<lambda>d. has_field d ''wpm'' is_number \<and> has_field d ''fillerPerMin'' is_number)) \<and>
       has_field ob ''timing''
         (is_object (\<lambda>t. has_field t ''status'' (is_one_of [''ok'', ''undertime'', ''overtime'']) \<and>
                         optional_field t ''notes'' is_string)) \<and>
       has_field ob ''feedback'' is_Feedback \<and>
       has_field ob ''rubricVersion'' is_string)"

subsection \<open>Concrete inputs\<close>

text \<open>A string \<^verbatim>\<open>Math.random().toString(36)\<close> can give.\<close>

definition random36 :: string where
  "random36 = ''0.k3x9abzzq1''"

text \<open>Services: one that cannot be reached, and one that replies with a status and a body.\<close>

definition unreachable :: fetch where
  "unreachable url body = Rejected"

definition flat_body :: jsval where
  "flat_body =
     JObj [(''matter'', JNum 10), (''manner'', JNum 5), (''method'', JNum 3), (''total'', JNum 18)]"

definition nested_body :: jsval where
  "nested_body =
     JObj [(''scores'', JObj [(''matter'', JNum 10), (''manner'', JNum 5), (''method'', JNum 3),
                              (''total'', JNum 18)])]"

definition null_scores_body :: jsval where
  "null_scores_body =
     JObj [(''scores'', JNull), (''matter'', JNum 10), (''manner'', JNum 5), (''method'', JNum 3),
           (''total'', JNum 18)]"

definition number_scores_body :: jsval where
  "number_scores_body =
     JObj [(''scores'', JNum 5), (''matter'', JNum 10), (''manner'', JNum 5), (''method'', JNum 3),
           (''total'', JNum 18)]"

definition string_scores_body :: jsval where
  "string_scores_body = JObj [(''scores'', JStr ''n/a''), (''matter'', JNum 10)]"

definition partial_body :: jsval where
  "partial_body = JObj [(''matter'', JNum 10), (''manner'', JNum 5), (''method'', JNum 3)]"

definition replies :: "nat \<Rightarrow> jsval option \<Rightarrow> fetch" where
  "replies st b url body = Response st b"

text \<open>
  Draws: the binary64 numbers written \<^verbatim>\<open>0.3\<close> and \<^verbatim>\<open>0.7\<close>, which lie below three
  and seven tenths and whose products with 10 round to 3 and to 7, and three dyadic
  fractions.
\<close>

definition example_draws :: Draws where
  "example_draws =
     \<lparr> u_matter = 5404319552844595 / 2 ^ 54, u_manner = 6305039478318694 / 2 ^ 53,
       u_method = 1 / 2, u_wpm = 1 / 4, u_filler = 3 / 4 \<rparr>"

definition example_request :: AnalyzeRequest where
  "example_request =
     \<lparr> sessionId = ''sess_k3x9ab'', motion = ''This House would ban zoos.'', side = side_CG,
       durationSec = 420, gcsUri = None, audioBlobUrl = None, uid = Some [] \<rparr>"

section \<open>Properties\<close>

subsection \<open>Rounding\<close>

lemma expo_bounds:
  assumes "0 < x"
  shows "2 powi expo x \<le> x" and "x < 2 powi (expo x + 1)"
proof -
  have "2 powi expo x \<le> x \<and> x < 2 powi (expo x + 1)"
  proof (cases "1 \<le> x")
    case True
    let ?n = "\<lfloor>x\<rfloor>"
    from True have n: "0 < ?n" by simp
    from bitlen_bounds [OF n] have lo: "2 ^ nat (bitlen ?n - 1) \<le> ?n"
      and hi: "?n < 2 ^ nat (bitlen ?n)" by simp_all
    from n have b: "1 \<le> bitlen ?n"
      using bitlen_eq_zero_iff [of ?n] bitlen_nonneg [of ?n] by linarith
    from True have e: "expo x = bitlen ?n - 1" by (simp add: expo_def)
    have "(2::real) powi (bitlen ?n - 1) = 2 ^ nat (bitlen ?n - 1)"
      using b by (simp add: power_int_nonneg_exp)
    also have "\<dots> = of_int (2 ^ nat (bitlen ?n - 1))" by simp
    also have "\<dots> \<le> of_int ?n" using lo by (simp only: of_int_le_iff)
    also have "\<dots> \<le> x" by simp
    finally have 1: "2 powi expo x \<le> x" by (simp add: e)
    from hi have "?n + 1 \<le> 2 ^ nat (bitlen ?n)" by simp
    then have "of_int (?n + 1) \<le> (of_int (2 ^ nat (bitlen ?n)) :: real)"
      by (simp only: of_int_le_iff)
    then have "of_int ?n + 1 \<le> (2 ^ nat (bitlen ?n) :: real)" by simp
    moreover have "x < of_int ?n + 1" by linarith
    ultimately have "x < 2 ^ nat (bitlen ?n)" by linarith
    moreover have "(2::real) powi (bitlen ?n) = 2 ^ nat (bitlen ?n)"
      using b by (simp add: power_int_nonneg_exp)
    ultimately have "x < 2 powi (expo x + 1)" by (simp add: e)
    with 1 show ?thesis by simp
  next
    case False
    with assms have x: "0 < x" "x < 1" by simp_all
    let ?c = "\<lceil>1 / x\<rceil> - 1"
    let ?k = "bitlen ?c"
    from x have y: "1 < 1 / x" by simp
    then have c: "0 < ?c" by linarith
    from bitlen_bounds [OF c] have lo: "2 ^ nat (?k - 1) \<le> ?c"
      and hi: "?c < 2 ^ nat ?k" by simp_all
    from c have k: "1 \<le> ?k"
      using bitlen_eq_zero_iff [of ?c] bitlen_nonneg [of ?c] by linarith
    from False have e: "expo x = - ?k" by (simp add: expo_def)
    have "of_int (2 ^ nat (?k - 1)) \<le> (of_int ?c :: real)"
      using lo by (simp only: of_int_le_iff)
    moreover have "of_int ?c < 1 / x" by linarith
    ultimately have a: "2 ^ nat (?k - 1) < 1 / x" by simp
    from hi have "?c + 1 \<le> 2 ^ nat ?k" by simp
    then have "of_int (?c + 1) \<le> (of_int (2 ^ nat ?k) :: real)"
      by (simp only: of_int_le_iff)
    then have "of_int \<lceil>1 / x\<rceil> \<le> (2 ^ nat ?k :: real)" by simp
    moreover have "1 / x \<le> of_int \<lceil>1 / x\<rceil>" by (rule le_of_int_ceiling)
    ultimately have b: "1 / x \<le> 2 ^ nat ?k" by linarith
    from b x have "1 \<le> 2 ^ nat ?k * x"
      by (simp add: field_simps)
    then have "1 / 2 ^ nat ?k \<le> x"
      by (simp add: field_simps)
    moreover have "(2::real) powi (- ?k) = 1 / 2 ^ nat ?k"
      using k by (simp add: power_int_def field_simps)
    ultimately have 1: "2 powi expo x \<le> x" by (simp add: e)
    from a x have "2 ^ nat (?k - 1) * x < 1"
      by (simp add: field_simps)
    then have "x < 1 / 2 ^ nat (?k - 1)"
      by (simp add: field_simps)
    moreover have "(2::real) powi (- ?k + 1) = 1 / 2 ^ nat (?k - 1)"
    proof -
      have "- ?k + 1 = - (?k - 1)" by simp
      moreover have "(2::real) powi (- (?k - 1)) = 1 / 2 ^ nat (?k - 1)"
        using k by (simp add: power_int_def field_simps)
      ultimately show ?thesis by simp
    qed
    ultimately have "x < 2 powi (expo x + 1)" by (simp add: e)
    with 1 show ?thesis by simp
  qed
  then show "2 powi expo x \<le> x" and "x < 2 powi (expo x + 1)" by simp_all
qed

lemma expo_unique:
  assumes "2 powi e \<le> x" and "x < 2 powi (e + 1)"
  shows "expo x = e"
proof -
  have "(0::real) < 2 powi e" by simp
  with assms have x: "0 < x" by linarith
  have "\<not> e < expo x"
  proof
    assume "e < expo x"
    then have "(2::real) powi (e + 1) \<le> 2 powi expo x"
      by (intro power_int_increasing) simp_all
    with expo_bounds(1) [OF x] assms show False by linarith
  qed
  moreover have "\<not> expo x < e"
  proof
    assume "expo x < e"
    then have "(2::real) powi (expo x + 1) \<le> 2 powi e"
      by (intro power_int_increasing) simp_all
    with expo_bounds(2) [OF x] assms show False by linarith
  qed
  ultimately show ?thesis by simp
qed


lemma round_even_of_int: "round_even (of_int n) = n"
  by (simp add: round_even_def)

lemma round_even_nonneg: "0 \<le> y \<Longrightarrow> 0 \<le> round_even y"
  by (simp add: round_even_def Let_def)

lemma round_even_le:
  assumes "y \<le> of_int n"
  shows "round_even y \<le> n"
proof (cases "\<lfloor>y\<rfloor> = n")
  case True
  with assms have "y = of_int n" by linarith
  then show ?thesis by (simp add: round_even_of_int)
next
  case False
  from assms have "\<lfloor>y\<rfloor> \<le> n" by (simp add: floor_le_iff)
  with False have "\<lfloor>y\<rfloor> + 1 \<le> n" by simp
  then show ?thesis by (simp add: round_even_def Let_def)
qed

lemma round_even_below_half:
  assumes "y < of_int n - 1 / 2"
  shows "round_even y \<le> n - 1"
proof (cases "\<lfloor>y\<rfloor> = n - 1")
  case True
  with assms have "y - of_int \<lfloor>y\<rfloor> < 1 / 2" by simp
  with True show ?thesis by (simp add: round_even_def Let_def)
next
  case False
  from assms have "y < of_int n" by simp
  then have "\<lfloor>y\<rfloor> < n" by (simp only: floor_less_iff)
  with False have "\<lfloor>y\<rfloor> + 1 \<le> n - 1" by simp
  then show ?thesis by (simp add: round_even_def Let_def)
qed

lemma fl_zero: "fl 0 = 0"
  by (simp add: fl_def round_pos_def round_even_def)

lemma fl_nonneg: "0 \<le> x \<Longrightarrow> 0 \<le> fl x"
  by (simp add: fl_def round_pos_def round_even_nonneg)

lemma fl_le:
  assumes "0 \<le> x" and "x \<le> of_int n * 2 powi quantum x"
  shows "fl x \<le> of_int n * 2 powi quantum x"
proof -
  have q: "(0::real) < 2 powi quantum x" by simp
  from assms(2) q have "x / 2 powi quantum x \<le> of_int n"
    by (simp add: field_simps)
  then have "round_even (x / 2 powi quantum x) \<le> n"
    by (rule round_even_le)
  then have "(of_int (round_even (x / 2 powi quantum x)) :: real) \<le> of_int n"
    by (simp only: of_int_le_iff)
  with q have "(of_int (round_even (x / 2 powi quantum x)) :: real) * 2 powi quantum x
      \<le> of_int n * 2 powi quantum x"
    by (simp only: mult_le_cancel_right_pos)
  with assms(1) show ?thesis by (simp add: fl_def round_pos_def)
qed

lemma fl_below_half:
  assumes "0 \<le> x" and "x < (of_int n - 1 / 2) * 2 powi quantum x"
  shows "fl x \<le> (of_int n - 1) * 2 powi quantum x"
proof -
  have q: "(0::real) < 2 powi quantum x" by simp
  from assms(2) q have "x / 2 powi quantum x < of_int n - 1 / 2"
    by (simp add: field_simps)
  then have "round_even (x / 2 powi quantum x) \<le> n - 1"
    by (rule round_even_below_half)
  then have "(of_int (round_even (x / 2 powi quantum x)) :: real) \<le> of_int (n - 1)"
    by (simp only: of_int_le_iff)
  with q have "(of_int (round_even (x / 2 powi quantum x)) :: real) * 2 powi quantum x
      \<le> of_int (n - 1) * 2 powi quantum x"
    by (simp only: mult_le_cancel_right_pos)
  with assms(1) show ?thesis by (simp add: fl_def round_pos_def)
qed

lemma fl_exact:
  assumes "0 \<le> x" and "x = of_int n * 2 powi quantum x"
  shows "fl x = x"
proof -
  have "(x / 2 powi quantum x = of_int n) = (x = of_int n * 2 powi quantum x)"
    by (simp add: field_simps)
  with assms(2) have "x / 2 powi quantum x = of_int n" by blast
  then have "round_even (x / 2 powi quantum x) = n"
    by (simp only: round_even_of_int)
  with assms show ?thesis by (simp add: fl_def round_pos_def)
qed

lemma expo_less:
  assumes "0 < x" and "x < 2 powi j"
  shows "expo x < j"
proof (rule ccontr)
  assume "\<not> expo x < j"
  then have "(2::real) powi j \<le> 2 powi expo x"
    by (intro power_int_increasing) simp_all
  with expo_bounds(1) [OF assms(1)] assms(2) show False by linarith
qed

lemma expo_ge:
  assumes "2 powi j \<le> x"
  shows "j \<le> expo x"
proof (rule ccontr)
  have "(0::real) < 2 powi j" by simp
  with assms have x: "0 < x" by linarith
  assume "\<not> j \<le> expo x"
  then have "(2::real) powi (expo x + 1) \<le> 2 powi j"
    by (intro power_int_increasing) simp_all
  with expo_bounds(2) [OF x] assms show False by linarith
qed

lemma fl_le_pow2:
  assumes "0 < x" and "x < 2 powi j" and "0 \<le> j"
  shows "fl x \<le> 2 powi j"
proof -
  from assms have "expo x < j" by (intro expo_less)
  with assms(3) have q: "quantum x \<le> j" by (simp add: quantum_def)
  have "(2::real) powi j = 2 powi (j - quantum x) * 2 powi quantum x"
    by (simp flip: power_int_add)
  also have "(2::real) powi (j - quantum x) = of_int (2 ^ nat (j - quantum x))"
    using q by (simp add: power_int_nonneg_exp)
  finally have e: "(2::real) powi j = of_int (2 ^ nat (j - quantum x)) * 2 powi quantum x" .
  from assms(2) have "x \<le> 2 powi j" by simp
  then have "x \<le> of_int (2 ^ nat (j - quantum x)) * 2 powi quantum x"
    by (simp only: e)
  with assms(1) have "fl x \<le> of_int (2 ^ nat (j - quantum x)) * 2 powi quantum x"
    by (intro fl_le) simp_all
  then show ?thesis by (simp only: e)
qed

lemma fl_of_int:
  assumes "0 \<le> n" and "n < 2 ^ 53"
  shows "fl (of_int n) = of_int n"
proof (cases "n = 0")
  case True
  then show ?thesis by (simp add: fl_zero)
next
  case False
  let ?x = "of_int n :: real"
  from False assms have n: "1 \<le> n" by simp
  then have "(2::real) powi 0 \<le> ?x" by simp
  then have lo: "0 \<le> expo ?x" by (rule expo_ge)
  from assms(2) have "?x < of_int (2 ^ 53)" by (simp only: of_int_less_iff)
  then have "?x < 2 powi 53" by simp
  with n have hi: "expo ?x < 53" by (intro expo_less) simp_all
  from lo hi have q: "quantum ?x = expo ?x - 52" "quantum ?x \<le> 0"
    by (simp_all add: quantum_def)
  have k: "(2::real) ^ nat (- quantum ?x) = 2 powi (- quantum ?x)"
    using q by (simp add: power_int_nonneg_exp)
  have "of_int (n * 2 ^ nat (- quantum ?x)) * 2 powi quantum ?x =
      ?x * (2 powi (- quantum ?x) * 2 powi quantum ?x)"
    by (simp add: k)
  also have "(2::real) powi (- quantum ?x) * 2 powi quantum ?x = 1"
    by (simp flip: power_int_add)
  finally have r: "of_int (n * 2 ^ nat (- quantum ?x)) * 2 powi quantum ?x = ?x"
    by simp
  show ?thesis
  proof (rule fl_exact [where n = "n * 2 ^ nat (- quantum ?x)"])
    show "0 \<le> ?x" using n by simp
    show "?x = of_int (n * 2 ^ nat (- quantum ?x)) * 2 powi quantum ?x"
      by (rule r [symmetric])
  qed
qed

lemma double_below_one:
  assumes "is_double u" and "0 \<le> u" and "u < 1"
  shows "u \<le> 1 - 1 / 2 ^ 53"
proof (cases "u = 0")
  case True
  then show ?thesis by simp
next
  case False
  with assms have u: "0 < u" by simp
  from u assms(3) have e: "expo u < 0" by (intro expo_less) simp_all
  show ?thesis
  proof (cases "expo u = - 1")
    case True
    then have q: "quantum u = - 53" by (simp add: quantum_def)
    let ?n = "round_even (u / 2 powi quantum u)"
    from assms(1) u have "u = of_int ?n * 2 powi quantum u"
      by (simp add: is_double_def fl_def round_pos_def)
    then have v: "u = of_int ?n / 2 ^ 53"
      by (simp add: q power_int_minus field_simps)
    with assms(3) have "of_int ?n < (2 ^ 53 :: real)" by (simp add: field_simps)
    then have "of_int ?n < (of_int (2 ^ 53) :: real)" by simp
    then have "?n < 2 ^ 53" by (simp only: of_int_less_iff)
    then have "?n \<le> 2 ^ 53 - 1" by simp
    then have "(of_int ?n :: real) \<le> of_int (2 ^ 53 - 1)" by (simp only: of_int_le_iff)
    then have "(of_int ?n :: real) / 2 ^ 53 \<le> (2 ^ 53 - 1) / 2 ^ 53"
      by (simp add: divide_right_mono)
    with v show ?thesis by (simp add: field_simps)
  next
    case False
    with e have "expo u + 1 \<le> - 1" by simp
    then have "(2::real) powi (expo u + 1) \<le> 2 powi (- 1)"
      by (intro power_int_increasing) simp_all
    with expo_bounds(2) [OF u] have "u < 1 / 2" by simp
    then show ?thesis by simp
  qed
qed

lemma times10_below:
  assumes "is_double u" and "0 \<le> u" and "u < 1"
  shows "0 \<le> fl (u * 10)" and "fl (u * 10) < 10"
proof -
  from assms(2) show "0 \<le> fl (u * 10)" by (intro fl_nonneg) simp
  let ?x = "u * 10"
  from double_below_one [OF assms] have b: "?x \<le> 10 - 10 / 2 ^ 53" by simp
  show "fl ?x < 10"
  proof (cases "?x < 8")
    case True
    show ?thesis
    proof (cases "u = 0")
      case True
      then show ?thesis by (simp add: fl_zero)
    next
      case False
      with assms(2) have "0 < ?x" by simp
      with True have "fl ?x \<le> 2 powi 3" by (intro fl_le_pow2) simp_all
      then show ?thesis by simp
    qed
  next
    case False
    then have lo: "2 powi 3 \<le> ?x" by simp
    from b have "?x < 2 powi 4" by simp
    with lo have "expo ?x = 3" by (intro expo_unique) simp_all
    then have q: "quantum ?x = - 49" by (simp add: quantum_def)
    from b have "?x < (of_int (10 * 2 ^ 49) - 1 / 2) * 2 powi quantum ?x"
      by (simp add: q power_int_minus field_simps)
    with assms(2) have "fl ?x \<le> (of_int (10 * 2 ^ 49) - 1) * 2 powi quantum ?x"
      by (intro fl_below_half) simp_all
    then show ?thesis by (simp add: q power_int_minus field_simps)
  qed
qed

lemma times8_below:
  assumes "is_double u" and "0 \<le> u" and "u < 1"
  shows "0 \<le> fl (u * 8)" and "fl (u * 8) < 8"
proof -
  from assms(2) show "0 \<le> fl (u * 8)" by (intro fl_nonneg) simp
  let ?x = "u * 8"
  from double_below_one [OF assms] have b: "?x \<le> 8 - 8 / 2 ^ 53" by simp
  show "fl ?x < 8"
  proof (cases "?x < 4")
    case True
    show ?thesis
    proof (cases "u = 0")
      case True
      then show ?thesis by (simp add: fl_zero)
    next
      case False
      with assms(2) have "0 < ?x" by simp
      with True have "fl ?x \<le> 2 powi 2" by (intro fl_le_pow2) simp_all
      then show ?thesis by simp
    qed
  next
    case False
    then have lo: "2 powi 2 \<le> ?x" by simp
    from b have "?x < 2 powi 3" by simp
    with lo have "expo ?x = 2" by (intro expo_unique) simp_all
    then have q: "quantum ?x = - 50" by (simp add: quantum_def)
    from b have "?x \<le> of_int (2 ^ 53 - 1) * 2 powi quantum ?x"
      by (simp add: q power_int_minus field_simps)
    with assms(2) have "fl ?x \<le> of_int (2 ^ 53 - 1) * 2 powi quantum ?x"
      by (intro fl_le) simp_all
    then show ?thesis by (simp add: q power_int_minus field_simps)
  qed
qed

lemma add64_of_int:
  assumes "0 \<le> a" and "0 \<le> b" and "a + b < 2 ^ 53"
  shows "add64 (of_int a) (of_int b) = of_int (a + b)"
proof -
  from assms have "fl (of_int (a + b)) = of_int (a + b)"
    by (intro fl_of_int) simp_all
  then show ?thesis by (simp add: add64_def)
qed

subsection \<open>The simulated analyzer\<close>

lemma floor_below:
  assumes "0 \<le> x" and "x < of_int n"
  shows "0 \<le> \<lfloor>x\<rfloor>" and "\<lfloor>x\<rfloor> \<le> n - 1"
proof -
  from assms(1) show "0 \<le> \<lfloor>x\<rfloor>" by simp
  from assms(2) have "\<lfloor>x\<rfloor> < n" by (simp only: floor_less_iff)
  then show "\<lfloor>x\<rfloor> \<le> n - 1" by simp
qed

lemma draw_times10:
  assumes "unit_interval u"
  shows "0 \<le> \<lfloor>mul64 u 10\<rfloor>" and "\<lfloor>mul64 u 10\<rfloor> \<le> 9"
proof -
  from assms have u: "is_double u" "0 \<le> u" "u < 1"
    by (simp_all add: unit_interval_def)
  from times10_below [OF u] have "0 \<le> mul64 u 10" and "mul64 u 10 < of_int 10"
    by (simp_all add: mul64_def)
  from floor_below [OF this] show "0 \<le> \<lfloor>mul64 u 10\<rfloor>" and "\<lfloor>mul64 u 10\<rfloor> \<le> 9"
    by simp_all
qed

lemma draw_times8:
  assumes "unit_interval u"
  shows "0 \<le> \<lfloor>mul64 u 8\<rfloor>" and "\<lfloor>mul64 u 8\<rfloor> \<le> 7"
proof -
  from assms have u: "is_double u" "0 \<le> u" "u < 1"
    by (simp_all add: unit_interval_def)
  from times8_below [OF u] have "0 \<le> mul64 u 8" and "mul64 u 8 < of_int 8"
    by (simp_all add: mul64_def)
  from floor_below [OF this] show "0 \<le> \<lfloor>mul64 u 8\<rfloor>" and "\<lfloor>mul64 u 8\<rfloor> \<le> 7"
    by simp_all
qed

lemma mockAnalyze_scores_eq:
  assumes "valid_draws d"
  shows "matter (scores (mockAnalyze d req)) = of_int (24 + \<lfloor>mul64 (u_matter d) 10\<rfloor>)"
    and "manner (scores (mockAnalyze d req)) = of_int (22 + \<lfloor>mul64 (u_manner d) 10\<rfloor>)"
    and "method_score (scores (mockAnalyze d req)) = of_int (12 + \<lfloor>mul64 (u_method d) 8\<rfloor>)"
    and "total (scores (mockAnalyze d req)) =
           of_int (24 + \<lfloor>mul64 (u_matter d) 10\<rfloor> + (22 + \<lfloor>mul64 (u_manner d) 10\<rfloor>) +
                   (12 + \<lfloor>mul64 (u_method d) 8\<rfloor>))"
proof -
  let ?a = "\<lfloor>mul64 (u_matter d) 10\<rfloor>" and ?b = "\<lfloor>mul64 (u_manner d) 10\<rfloor>"
    and ?c = "\<lfloor>mul64 (u_method d) 8\<rfloor>"
  from assms have h: "unit_interval (u_matter d)" "unit_interval (u_manner d)"
      "unit_interval (u_method d)"
    by (simp_all add: valid_draws_def)
  note a = draw_times10 [OF h(1)] and b = draw_times10 [OF h(2)] and c = draw_times8 [OF h(3)]
  have P: "(2::int) ^ 53 = 9007199254740992" by simp
  have m: "add64 (of_int 24) (of_int ?a) = of_int (24 + ?a)"
    by (intro add64_of_int) (use a P in linarith)+
  have n: "add64 (of_int 22) (of_int ?b) = of_int (22 + ?b)"
    by (intro add64_of_int) (use b P in linarith)+
  have p: "add64 (of_int 12) (of_int ?c) = of_int (12 + ?c)"
    by (intro add64_of_int) (use c P in linarith)+
  have mn: "add64 (of_int (24 + ?a)) (of_int (22 + ?b)) = of_int (24 + ?a + (22 + ?b))"
    by (intro add64_of_int) (use a b P in linarith)+
  have t: "add64 (of_int (24 + ?a + (22 + ?b))) (of_int (12 + ?c)) =
      of_int (24 + ?a + (22 + ?b) + (12 + ?c))"
    by (intro add64_of_int) (use a b c P in linarith)+
  have defs: "matter (scores (mockAnalyze d req)) = add64 (of_int 24) (of_int ?a)"
    "manner (scores (mockAnalyze d req)) = add64 (of_int 22) (of_int ?b)"
    "method_score (scores (mockAnalyze d req)) = add64 (of_int 12) (of_int ?c)"
    "total (scores (mockAnalyze d req)) =
       add64 (add64 (add64 (of_int 24) (of_int ?a)) (add64 (of_int 22) (of_int ?b)))
         (add64 (of_int 12) (of_int ?c))"
    by (simp_all add: mockAnalyze_def Let_def Math_floor_def)
  show "matter (scores (mockAnalyze d req)) = of_int (24 + ?a)"
    and "manner (scores (mockAnalyze d req)) = of_int (22 + ?b)"
    and "method_score (scores (mockAnalyze d req)) = of_int (12 + ?c)"
    and "total (scores (mockAnalyze d req)) = of_int (24 + ?a + (22 + ?b) + (12 + ?c))"
    by (simp_all only: defs m n p mn t)
qed

text \<open>
  Claim C3. For every request and every outcome of the random draws, the scores of the
  simulated analyzer are integers with matter in [24,33], manner in [22,31] and method
  in [12,19], and the total is exactly matter + manner + method.
\<close>

theorem mockAnalyze_scores:
  assumes "valid_draws d"
  shows "24 \<le> matter (scores (mockAnalyze d req)) \<and> matter (scores (mockAnalyze d req)) \<le> 33 \<and>
         22 \<le> manner (scores (mockAnalyze d req)) \<and> manner (scores (mockAnalyze d req)) \<le> 31 \<and>
         12 \<le> method_score (scores (mockAnalyze d req)) \<and>
         method_score (scores (mockAnalyze d req)) \<le> 19 \<and>
         matter (scores (mockAnalyze d req)) \<in> \<int> \<and> manner (scores (mockAnalyze d req)) \<in> \<int> \<and>
         method_score (scores (mockAnalyze d req)) \<in> \<int> \<and>
         total (scores (mockAnalyze d req)) =
           matter (scores (mockAnalyze d req)) + manner (scores (mockAnalyze d req)) +
           method_score (scores (mockAnalyze d req))"
proof -
  from assms have h: "unit_interval (u_matter d)" "unit_interval (u_manner d)"
      "unit_interval (u_method d)"
    by (simp_all add: valid_draws_def)
  from draw_times10 [OF h(1)] draw_times10 [OF h(2)] draw_times8 [OF h(3)]
  show ?thesis
    unfolding mockAnalyze_scores_eq [OF assms] by simp
qed

lemma example_draws_valid: "valid_draws example_draws"
  unfolding valid_draws_def unit_interval_def example_draws_def is_double_def
  by code_simp

lemma example_floors:
  "\<lfloor>mul64 (u_matter example_draws) 10\<rfloor> = 3"
  "\<lfloor>mul64 (u_manner example_draws) 10\<rfloor> = 7"
  "\<lfloor>mul64 (u_method example_draws) 8\<rfloor> = 4"
  unfolding mul64_def example_draws_def by code_simp+

theorem mockAnalyze_scores_witness:
  "valid_draws example_draws \<and>
   matter (scores (mockAnalyze example_draws example_request)) = 27 \<and>
   manner (scores (mockAnalyze example_draws example_request)) = 29 \<and>
   method_score (scores (mockAnalyze example_draws example_request)) = 16 \<and>
   total (scores (mockAnalyze example_draws example_request)) = 72"
proof -
  from mockAnalyze_scores [OF example_draws_valid, of example_request] example_draws_valid
  show ?thesis
    by (simp add: mockAnalyze_scores_eq [OF example_draws_valid] example_floors)
qed

text \<open>
  Claim C4. The timing status of the simulated analyzer is a function of the duration
  of the request alone: undertime exactly below 390, overtime exactly above 435, ok
  otherwise, and so ok at 390, 420 and 435.
\<close>

theorem timing_status:
  "status (timing (mockAnalyze d req)) = timingStatus (durationSec req) \<and>
   (timingStatus x = undertime) = (x < 390) \<and>
   (timingStatus x = overtime) = (x > 435) \<and>
   (timingStatus x = ok) = (390 \<le> x \<and> x \<le> 435) \<and>
   timingStatus 390 = ok \<and> timingStatus 420 = ok \<and> timingStatus 435 = ok \<and>
   timingStatus 100 = undertime \<and> timingStatus 500 = overtime"
  by (auto simp add: mockAnalyze_def Let_def timingStatus_def)

subsection \<open>The remote analyzer\<close>



lemma normalize_scores_fails:
  "isl (normalize_scores data) = (data = JNull \<or> data = JUndefined)"
  by (cases data) (simp_all add: normalize_scores_def)

text \<open>What the shim makes of an object, and of a value that is none.\<close>

lemma normalize_scores_object:
  "normalize_scores (JObj kvs) =
     Inr (if truthy (own_prop kvs ''scores'') \<or> own_prop kvs ''matter'' = JUndefined
          then JObj kvs
          else JObj (AList.update ''scores''
                 (JObj [(''matter'', own_prop kvs ''matter''), (''manner'', own_prop kvs ''manner''),
                        (''method'', own_prop kvs ''method''), (''total'', own_prop kvs ''total'')])
                 kvs))"
  by (simp add: normalize_scores_def)

lemma normalize_scores_plain:
  "normalize_scores JUndefined = Inl TypeError"
  "normalize_scores JNull = Inl TypeError"
  "normalize_scores (JBool b) = Inr (JBool b)"
  "normalize_scores (JNum x) = Inr (JNum x)"
  "normalize_scores (JStr s) = Inr (JStr s)"
  "normalize_scores (JArr xs) = Inr (JArr xs)"
  by (simp_all add: normalize_scores_def)

lemma getProp_update:
  "getProp (JObj (AList.update k x kvs)) k' = (if k' = k then Inr x else getProp (JObj kvs) k')"
  by (simp add: update_conv' own_prop_def)

lemma cloudAnalyze_ok:
  assumes "f ANALYZE_URL (request_body req) = Response st (Some data)" and "response_ok st"
  shows "result (cloudAnalyze f req) = normalize_scores data"
  using assms by (simp add: cloudAnalyze_def Let_def)

lemma replies_ok:
  "result (cloudAnalyze (replies 200 (Some data)) req) = normalize_scores data"
  by (rule cloudAnalyze_ok [where st = 200]) (simp_all add: replies_def response_ok_def)

text \<open>
  Claim C8, as amended. The remote analyzer fails exactly when \<^verbatim>\<open>fetch\<close> rejects, or
  the status is not one of 200 to 299, or the body does not decode, or the decoded body
  is \<^verbatim>\<open>null\<close> (reading \<^verbatim>\<open>data.scores\<close> then throws a TypeError; \<^verbatim>\<open>undefined\<close>, which
  no JSON text decodes to, would do the same). So every non-success status and every
  undecodable body make it fail, and so does one decodable body of a successful
  response. Every other decoded body of a successful response is returned: a value
  that is no object as it is, an object as it is or with the \<^verbatim>\<open>scores\<close> the shim
  builds.
\<close>

theorem cloudAnalyze_fails_iff:
  "isl (result (cloudAnalyze f req)) =
     (case f ANALYZE_URL (request_body req) of
        Rejected \<Rightarrow> True
      | Response st b \<Rightarrow>
          b = None \<or> b = Some JNull \<or> b = Some JUndefined \<or> \<not> response_ok st) \<and>
   (f ANALYZE_URL (request_body req) = Response st (Some data) \<and> response_ok st \<longrightarrow>
      result (cloudAnalyze f req) =
        (case data of
           JUndefined \<Rightarrow> Inl TypeError
         | JNull \<Rightarrow> Inl TypeError
         | JObj kvs \<Rightarrow>
             Inr (if truthy (own_prop kvs ''scores'') \<or> own_prop kvs ''matter'' = JUndefined
                  then JObj kvs
                  else JObj (AList.update ''scores''
                         (JObj [(''matter'', own_prop kvs ''matter''),
                                (''manner'', own_prop kvs ''manner''),
                                (''method'', own_prop kvs ''method''),
                                (''total'', own_prop kvs ''total'')])
                         kvs))
         | _ \<Rightarrow> Inr data))"
proof (intro conjI impI)
  show "isl (result (cloudAnalyze f req)) =
     (case f ANALYZE_URL (request_body req) of
        Rejected \<Rightarrow> True
      | Response st b \<Rightarrow>
          b = None \<or> b = Some JNull \<or> b = Some JUndefined \<or> \<not> response_ok st)"
    by (auto simp add: cloudAnalyze_def Let_def normalize_scores_fails
        split: fetch_result.splits option.splits)
next
  assume "f ANALYZE_URL (request_body req) = Response st (Some data) \<and> response_ok st"
  then have "result (cloudAnalyze f req) = normalize_scores data"
    by (simp add: cloudAnalyze_ok)
  then show "result (cloudAnalyze f req) =
        (case data of
           JUndefined \<Rightarrow> Inl TypeError
         | JNull \<Rightarrow> Inl TypeError
         | JObj kvs \<Rightarrow>
             Inr (if truthy (own_prop kvs ''scores'') \<or> own_prop kvs ''matter'' = JUndefined
                  then JObj kvs
                  else JObj (AList.update ''scores''
                         (JObj [(''matter'', own_prop kvs ''matter''),
                                (''manner'', own_prop kvs ''manner''),
                                (''method'', own_prop kvs ''method''),
                                (''total'', own_prop kvs ''total'')])
                         kvs))
         | _ \<Rightarrow> Inr data)"
    by (cases data) (simp_all add: normalize_scores_plain normalize_scores_object)
qed

theorem cloudAnalyze_fails_iff_witness:
  "replies 200 (Some (JStr ''abc'')) ANALYZE_URL (request_body example_request) =
     Response 200 (Some (JStr ''abc'')) \<and>
   response_ok 200 \<and>
   result (cloudAnalyze (replies 200 (Some (JStr ''abc''))) example_request) = Inr (JStr ''abc'') \<and>
   result (cloudAnalyze (replies 200 (Some partial_body)) example_request) =
     Inr (JObj [(''matter'', JNum 10), (''manner'', JNum 5), (''method'', JNum 3),
                (''scores'', JObj [(''matter'', JNum 10), (''manner'', JNum 5),
                                   (''method'', JNum 3), (''total'', JUndefined)])])"
proof -
  have f: "replies 200 (Some x) ANALYZE_URL (request_body example_request) = Response 200 (Some x)"
    for x by (simp add: replies_def)
  have ok: "response_ok 200" by (simp add: response_ok_def)
  from cloudAnalyze_fails_iff [of "replies 200 (Some (JStr ''abc''))" example_request 200
      "JStr ''abc''"]
    cloudAnalyze_fails_iff [of "replies 200 (Some partial_body)" example_request 200 partial_body]
    f ok
  show ?thesis
    by (simp add: partial_body_def own_prop_def)
qed

text \<open>
  Claim C8 as stated fails: the status 200 with the JSON body \<^verbatim>\<open>null\<close> is a successful
  call with a decodable body, and the remote analyzer throws all the same.
\<close>

theorem cloudAnalyze_null_body:
  "response_ok 200 \<and>
   result (cloudAnalyze (replies 200 (Some JNull)) example_request) = Inl TypeError"
  by (simp add: cloudAnalyze_def Let_def replies_def response_ok_def normalize_scores_def)

text \<open>
  Claim C5, as amended. When the call succeeds and the decoded body is an object whose
  \<^verbatim>\<open>scores\<close> is absent or falsy (\<^verbatim>\<open>null\<close>, \<^verbatim>\<open>false\<close>, 0 or the empty string) and
  which has top-level \<^verbatim>\<open>matter\<close>, \<^verbatim>\<open>manner\<close>, \<^verbatim>\<open>method\<close> and \<^verbatim>\<open>total\<close>, the remote
  analyzer returns the body with a \<^verbatim>\<open>scores\<close> object made of these four values,
  every other field as it was. A body whose \<^verbatim>\<open>scores\<close> is truthy, an object or not,
  is returned unchanged.
\<close>

theorem cloudAnalyze_normalizes:
  assumes "f ANALYZE_URL (request_body req) = Response st (Some (JObj kvs))" and "response_ok st"
  shows "(\<not> truthy (own_prop kvs ''scores'') \<and> map_of kvs ''matter'' = Some a \<and> a \<noteq> JUndefined \<and>
          map_of kvs ''manner'' = Some b \<and> map_of kvs ''method'' = Some c \<and>
          map_of kvs ''total'' = Some t \<longrightarrow>
            (\<exists>v. result (cloudAnalyze f req) = Inr v \<and>
                 getProp v ''scores'' =
                   Inr (JObj [(''matter'', a), (''manner'', b), (''method'', c), (''total'', t)]) \<and>
                 (\<forall>k. k \<noteq> ''scores'' \<longrightarrow> getProp v k = getProp (JObj kvs) k))) \<and>
         (truthy (own_prop kvs ''scores'') \<longrightarrow> result (cloudAnalyze f req) = Inr (JObj kvs))"
proof (intro conjI impI)
  assume h: "\<not> truthy (own_prop kvs ''scores'') \<and> map_of kvs ''matter'' = Some a \<and>
          a \<noteq> JUndefined \<and> map_of kvs ''manner'' = Some b \<and> map_of kvs ''method'' = Some c \<and>
          map_of kvs ''total'' = Some t"
  let ?sc = "JObj [(''matter'', a), (''manner'', b), (''method'', c), (''total'', t)]"
  from h have p: "own_prop kvs ''matter'' = a" "own_prop kvs ''manner'' = b"
      "own_prop kvs ''method'' = c" "own_prop kvs ''total'' = t"
    by (simp_all add: own_prop_def)
  from h p have "normalize_scores (JObj kvs) = Inr (JObj (AList.update ''scores'' ?sc kvs))"
    by (simp add: normalize_scores_object)
  with assms have "result (cloudAnalyze f req) = Inr (JObj (AList.update ''scores'' ?sc kvs))"
    by (simp add: cloudAnalyze_ok)
  moreover have "getProp (JObj (AList.update ''scores'' ?sc kvs)) ''scores'' = Inr ?sc"
    by (simp add: getProp_update del: getProp.simps)
  moreover have "\<forall>k. k \<noteq> ''scores'' \<longrightarrow>
      getProp (JObj (AList.update ''scores'' ?sc kvs)) k = getProp (JObj kvs) k"
    by (simp add: getProp_update del: getProp.simps)
  ultimately show "\<exists>v. result (cloudAnalyze f req) = Inr v \<and> getProp v ''scores'' = Inr ?sc \<and>
                 (\<forall>k. k \<noteq> ''scores'' \<longrightarrow> getProp v k = getProp (JObj kvs) k)"
    by blast
next
  assume "truthy (own_prop kvs ''scores'')"
  then have "normalize_scores (JObj kvs) = Inr (JObj kvs)"
    by (simp add: normalize_scores_object)
  with assms show "result (cloudAnalyze f req) = Inr (JObj kvs)"
    by (simp add: cloudAnalyze_ok)
qed

theorem cloudAnalyze_normalizes_witness:
  "result (cloudAnalyze (replies 200 (Some flat_body)) example_request) =
     Inr (JObj [(''matter'', JNum 10), (''manner'', JNum 5), (''method'', JNum 3), (''total'', JNum 18),
                (''scores'', JObj [(''matter'', JNum 10), (''manner'', JNum 5), (''method'', JNum 3),
                                   (''total'', JNum 18)])]) \<and>
   result (cloudAnalyze (replies 200 (Some null_scores_body)) example_request) =
     Inr (JObj [(''scores'', JObj [(''matter'', JNum 10), (''manner'', JNum 5), (''method'', JNum 3),
                                   (''total'', JNum 18)]),
                (''matter'', JNum 10), (''manner'', JNum 5), (''method'', JNum 3), (''total'', JNum 18)]) \<and>
   result (cloudAnalyze (replies 200 (Some nested_body)) example_request) = Inr nested_body"
proof -
  have ok: "response_ok 200" by (simp add: response_ok_def)
  have 1: "replies 200 (Some flat_body) ANALYZE_URL (request_body example_request) =
      Response 200 (Some (JObj [(''matter'', JNum 10), (''manner'', JNum 5), (''method'', JNum 3),
        (''total'', JNum 18)]))"
    by (simp add: replies_def flat_body_def)
  have 2: "replies 200 (Some null_scores_body) ANALYZE_URL (request_body example_request) =
      Response 200 (Some (JObj [(''scores'', JNull), (''matter'', JNum 10), (''manner'', JNum 5),
        (''method'', JNum 3), (''total'', JNum 18)]))"
    by (simp add: replies_def null_scores_body_def)
  have 3: "replies 200 (Some nested_body) ANALYZE_URL (request_body example_request) =
      Response 200 (Some (JObj [(''scores'', JObj [(''matter'', JNum 10), (''manner'', JNum 5),
        (''method'', JNum 3), (''total'', JNum 18)])]))"
    by (simp add: replies_def nested_body_def)
  from cloudAnalyze_normalizes [where f = "replies 200 (Some flat_body)" and req = example_request
        and a = "JNum 10" and b = "JNum 5" and c = "JNum 3" and t = "JNum 18", OF 1 ok]
    cloudAnalyze_normalizes [where f = "replies 200 (Some null_scores_body)"
        and req = example_request
        and a = "JNum 10" and b = "JNum 5" and c = "JNum 3" and t = "JNum 18", OF 2 ok]
    cloudAnalyze_normalizes [where f = "replies 200 (Some nested_body)" and req = example_request,
        OF 3 ok]
  show ?thesis
    by (simp add: replies_ok normalize_scores_object own_prop_def flat_body_def
        null_scores_body_def nested_body_def)
qed

text \<open>
  Claim C5 as stated fails: a body whose \<^verbatim>\<open>scores\<close> is the number 5 has no nested
  \<^verbatim>\<open>scores\<close> object and has the four top-level fields, and it is returned as it is,
  its \<^verbatim>\<open>scores\<close> still 5.
\<close>

theorem cloudAnalyze_keeps_number_scores:
  "result (cloudAnalyze (replies 200 (Some number_scores_body)) example_request) =
     Inr number_scores_body \<and>
   getProp number_scores_body ''scores'' = Inr (JNum 5) \<and>
   getProp number_scores_body ''matter'' = Inr (JNum 10) \<and>
   getProp number_scores_body ''manner'' = Inr (JNum 5) \<and>
   getProp number_scores_body ''method'' = Inr (JNum 3) \<and>
   getProp number_scores_body ''total'' = Inr (JNum 18)"
  by (simp add: replies_ok normalize_scores_object own_prop_def number_scores_body_def)

text \<open>
  Claim C10, as amended. The shim runs exactly when the \<^verbatim>\<open>scores\<close> of the decoded
  object is absent or falsy and its \<^verbatim>\<open>matter\<close> is not \<^verbatim>\<open>undefined\<close>, whether
  \<^verbatim>\<open>manner\<close>, \<^verbatim>\<open>method\<close> and \<^verbatim>\<open>total\<close> are there or not: the \<^verbatim>\<open>scores\<close> it builds
  holds \<^verbatim>\<open>matter\<close> and whatever reading the other three gives, \<^verbatim>\<open>undefined\<close> for an
  absent one, and the total is not derived again. Otherwise the object is returned as it
  is. For the body with matter 10, manner 5, method 3 and no total, the
  \<^verbatim>\<open>scores.total\<close> returned is \<^verbatim>\<open>undefined\<close>, not 18.
\<close>

theorem shim_copies_fields:
  "(f ANALYZE_URL (request_body req) = Response st (Some (JObj kvs)) \<and> response_ok st \<and>
    \<not> truthy (own_prop kvs ''scores'') \<and> own_prop kvs ''matter'' \<noteq> JUndefined \<longrightarrow>
      (\<exists>v. result (cloudAnalyze f req) = Inr v \<and>
         getProp v ''scores'' =
           Inr (JObj [(''matter'', own_prop kvs ''matter''), (''manner'', own_prop kvs ''manner''),
                      (''method'', own_prop kvs ''method''), (''total'', own_prop kvs ''total'')]))) \<and>
   (f ANALYZE_URL (request_body req) = Response st (Some (JObj kvs)) \<and> response_ok st \<and>
    (truthy (own_prop kvs ''scores'') \<or> own_prop kvs ''matter'' = JUndefined) \<longrightarrow>
      result (cloudAnalyze f req) = Inr (JObj kvs)) \<and>
   (\<exists>v sc. result (cloudAnalyze (replies 200 (Some partial_body)) example_request) = Inr v \<and>
      getProp v ''scores'' = Inr sc \<and> getProp v ''matter'' = Inr (JNum 10) \<and>
      getProp v ''manner'' = Inr (JNum 5) \<and> getProp v ''method'' = Inr (JNum 3) \<and>
      getProp sc ''total'' = Inr JUndefined \<and> JUndefined \<noteq> JNum (10 + 5 + 3))"
proof (intro conjI impI)
  assume h: "f ANALYZE_URL (request_body req) = Response st (Some (JObj kvs)) \<and> response_ok st \<and>
    \<not> truthy (own_prop kvs ''scores'') \<and> own_prop kvs ''matter'' \<noteq> JUndefined"
  let ?sc = "JObj [(''matter'', own_prop kvs ''matter''), (''manner'', own_prop kvs ''manner''),
                   (''method'', own_prop kvs ''method''), (''total'', own_prop kvs ''total'')]"
  from h have "result (cloudAnalyze f req) = normalize_scores (JObj kvs)"
    by (simp add: cloudAnalyze_ok)
  with h have "result (cloudAnalyze f req) = Inr (JObj (AList.update ''scores'' ?sc kvs))"
    by (simp add: normalize_scores_object)
  moreover have "getProp (JObj (AList.update ''scores'' ?sc kvs)) ''scores'' = Inr ?sc"
    by (simp add: getProp_update del: getProp.simps)
  ultimately show "\<exists>v. result (cloudAnalyze f req) = Inr v \<and> getProp v ''scores'' = Inr ?sc"
    by blast
next
  assume h: "f ANALYZE_URL (request_body req) = Response st (Some (JObj kvs)) \<and> response_ok st \<and>
    (truthy (own_prop kvs ''scores'') \<or> own_prop kvs ''matter'' = JUndefined)"
  then have "result (cloudAnalyze f req) = normalize_scores (JObj kvs)"
    by (simp add: cloudAnalyze_ok)
  with h show "result (cloudAnalyze f req) = Inr (JObj kvs)"
    by (simp add: normalize_scores_object)
next
  show "\<exists>v sc. result (cloudAnalyze (replies 200 (Some partial_body)) example_request) = Inr v \<and>
      getProp v ''scores'' = Inr sc \<and> getProp v ''matter'' = Inr (JNum 10) \<and>
      getProp v ''manner'' = Inr (JNum 5) \<and> getProp v ''method'' = Inr (JNum 3) \<and>
      getProp sc ''total'' = Inr JUndefined \<and> JUndefined \<noteq> JNum (10 + 5 + 3)"
    by (simp add: replies_ok normalize_scores_object own_prop_def partial_body_def)
qed

theorem shim_copies_fields_witness:
  "(\<exists>v. result (cloudAnalyze (replies 200 (Some partial_body)) example_request) = Inr v \<and>
     getProp v ''scores'' =
       Inr (JObj [(''matter'', JNum 10), (''manner'', JNum 5), (''method'', JNum 3),
                  (''total'', JUndefined)])) \<and>
   result (cloudAnalyze (replies 200 (Some nested_body)) example_request) = Inr nested_body"
proof -
  have ok: "response_ok 200" by (simp add: response_ok_def)
  have 1: "replies 200 (Some partial_body) ANALYZE_URL (request_body example_request) =
      Response 200 (Some (JObj [(''matter'', JNum 10), (''manner'', JNum 5), (''method'', JNum 3)]))"
    by (simp add: replies_def partial_body_def)
  have 2: "replies 200 (Some nested_body) ANALYZE_URL (request_body example_request) =
      Response 200 (Some (JObj [(''scores'', JObj [(''matter'', JNum 10), (''manner'', JNum 5),
        (''method'', JNum 3), (''total'', JNum 18)])]))"
    by (simp add: replies_def nested_body_def)
  from shim_copies_fields [of "replies 200 (Some partial_body)" example_request 200
      "[(''matter'', JNum 10), (''manner'', JNum 5), (''method'', JNum 3)]"]
    shim_copies_fields [of "replies 200 (Some nested_body)" example_request 200
      "[(''scores'', JObj [(''matter'', JNum 10), (''manner'', JNum 5),
        (''method'', JNum 3), (''total'', JNum 18)])]"]
    1 2 ok
  show ?thesis
    by (simp add: own_prop_def nested_body_def)
qed

text \<open>
  Claim C10 as stated fails: a body whose \<^verbatim>\<open>scores\<close> is a non-empty string has no
  \<^verbatim>\<open>scores\<close> object and has a defined \<^verbatim>\<open>matter\<close>, and the shim does not run.
\<close>

theorem shim_skips_string_scores:
  "result (cloudAnalyze (replies 200 (Some string_scores_body)) example_request) =
     Inr string_scores_body \<and>
   getProp string_scores_body ''scores'' = Inr (JStr ''n/a'') \<and>
   getProp string_scores_body ''matter'' = Inr (JNum 10)"
  by (simp add: replies_ok normalize_scores_object own_prop_def string_scores_body_def)

subsection \<open>The analysis adapter\<close>

lemma response_object_valid: "is_AnalyzeResponse (response_object r)"
  by (cases "r_status r"; cases "status (timing r)"; cases "t_notes (timing r)")
     (simp_all add: is_AnalyzeResponse_def response_object_def is_object_def has_field_def
       optional_field_def is_one_of_def is_string_def is_number_def is_Scores_def scores_object_def
       is_Feedback_def feedback_object_def strings_array_def is_array_of_def
       status_name_def timing_name_def list.pred_map comp_def list.pred_True)

lemma analyze_result: "\<exists>v. result (analyze m f d req) = Inr v"
  by (cases "result (cloudAnalyze f req)") (simp_all add: analyze_def Let_def)

lemma analyze_posts: "posts (analyze m f d req) = analyze_sends m req"
  by (cases "result (cloudAnalyze f req)")
     (simp_all add: analyze_def Let_def cloudAnalyze_def analyze_sends_def)

text \<open>
  Claim C1, as amended. \<^verbatim>\<open>analyze\<close> never throws: in either mode and whatever the
  service does, it resolves to a value. In cloud mode, when the remote analyzer fails
  for whatever reason, that value is the result of the simulated analyzer for the same
  request, and so it is in mock mode; that result has the shape of an
  \<^verbatim>\<open>AnalyzeResponse\<close> and echoes the session identifier of the request. When the
  remote analyzer returns a value, \<^verbatim>\<open>analyze\<close> returns that very value, which nothing
  has checked.
\<close>

theorem analyze_never_throws:
  "(\<exists>v. result (analyze m f d req) = Inr v) \<and>
   (isl (result (cloudAnalyze f req)) \<longrightarrow>
      result (analyze cloud f d req) = Inr (response_object (mockAnalyze d req))) \<and>
   (\<forall>v. result (cloudAnalyze f req) = Inr v \<longrightarrow> result (analyze cloud f d req) = Inr v) \<and>
   result (analyze mock f d req) = Inr (response_object (mockAnalyze d req)) \<and>
   is_AnalyzeResponse (response_object (mockAnalyze d req)) \<and>
   r_sessionId (mockAnalyze d req) = sessionId req"
proof -
  have total: "\<exists>v. result (analyze m f d req) = Inr v"
    by (cases "result (cloudAnalyze f req)") (simp_all add: analyze_def Let_def)
  have fallback: "isl (result (cloudAnalyze f req)) \<longrightarrow>
      result (analyze cloud f d req) = Inr (response_object (mockAnalyze d req))"
    by (cases "result (cloudAnalyze f req)") (simp_all add: analyze_def Let_def)
  have passed: "\<forall>v. result (cloudAnalyze f req) = Inr v \<longrightarrow> result (analyze cloud f d req) = Inr v"
    by (simp add: analyze_def Let_def)
  have simulated: "result (analyze mock f d req) = Inr (response_object (mockAnalyze d req))"
    by (simp add: analyze_def)
  have echo: "r_sessionId (mockAnalyze d req) = sessionId req"
    by (simp add: mockAnalyze_def Let_def)
  from total fallback passed simulated echo response_object_valid show ?thesis
    by blast
qed

theorem analyze_never_throws_witness:
  "isl (result (cloudAnalyze unreachable example_request)) \<and>
   result (analyze cloud unreachable example_draws example_request) =
     Inr (response_object (mockAnalyze example_draws example_request)) \<and>
   result (cloudAnalyze (replies 200 (Some nested_body)) example_request) = Inr nested_body \<and>
   result (analyze cloud (replies 200 (Some nested_body)) example_draws example_request) =
     Inr nested_body"
proof -
  have a: "isl (result (cloudAnalyze unreachable example_request))"
    by (simp add: cloudAnalyze_def unreachable_def)
  have b: "result (cloudAnalyze (replies 200 (Some nested_body)) example_request) = Inr nested_body"
    by (simp add: replies_ok normalize_scores_object own_prop_def nested_body_def)
  from analyze_never_throws [of cloud unreachable example_draws example_request]
    analyze_never_throws [of cloud "replies 200 (Some nested_body)" example_draws example_request]
    a b
  show ?thesis by blast
qed

text \<open>
  Claim C1 as stated fails in its conclusion: the status 200 with the JSON body
  \<^verbatim>\<open>"abc"\<close> is no failure of the remote analyzer, and \<^verbatim>\<open>analyze\<close> hands the caller the
  string, which is no \<^verbatim>\<open>AnalyzeResponse\<close>.
\<close>

theorem analyze_passes_unchecked_body:
  "result (analyze cloud (replies 200 (Some (JStr ''abc''))) example_draws example_request) =
     Inr (JStr ''abc'') \<and>
   \<not> is_AnalyzeResponse (JStr ''abc'')"
  by (simp add: analyze_def Let_def replies_ok normalize_scores_plain
      is_AnalyzeResponse_def is_object_def)

subsection \<open>The components\<close>

lemma setScreen_fields:
  "pending (setScreen sc s) = pending s" "app_mode (setScreen sc s) = app_mode s"
  "network (setScreen sc s) = network s" "app_sessionId (setScreen sc s) = app_sessionId s"
  "analysis (setScreen sc s) = analysis s" "screen (setScreen sc s) = sc"
  "p_mode (practice_c s) = cloud \<Longrightarrow> p_mode (practice_c (setScreen sc s)) = cloud"
  by (simp_all add: setScreen_def mount_Practice_def DEFAULT_MODE_def)

lemma update_Practice_fields:
  "pending (update_Practice i g s) = pending s" "app_mode (update_Practice i g s) = app_mode s"
  "network (update_Practice i g s) = network s" "screen (update_Practice i g s) = screen s"
  "app_sessionId (update_Practice i g s) = app_sessionId s"
  "analysis (update_Practice i g s) = analysis s"
  by (simp_all add: update_Practice_def)

lemma resume_fields:
  assumes "result (analyze (pd_mode pd) f d (pd_req pd)) = Inr v"
  shows "screen (resume pd f d s) = session" "app_sessionId (resume pd f d s) = pd_sid pd"
    "analysis (resume pd f d s) = v" "pending (resume pd f d s) = pending s"
    "app_mode (resume pd f d s) = app_mode s"
    "network (resume pd f d s) = network s"
  using assms
  by (simp_all add: resume_def Let_def onAnalyzed_def update_Practice_fields setScreen_fields)

lemma resume_p_mode:
  assumes "p_mode (practice_c s) = cloud"
  shows "p_mode (practice_c (resume pd f d s)) = cloud"
proof -
  obtain v where "result (analyze (pd_mode pd) f d (pd_req pd)) = Inr v"
    using analyze_result by blast
  with assms show ?thesis
    by (simp add: resume_def Let_def onAnalyzed_def update_Practice_def setScreen_def)
qed

lemma list_all_remove: "list_all P xs \<Longrightarrow> list_all P (take k xs @ drop (Suc k) xs)"
  by (auto simp add: list_all_iff dest: in_set_takeD in_set_dropD)

lemma adapter_inv_step: "adapter_inv s \<Longrightarrow> adapter_inv (step s e)"
proof (cases e)
  case (Settled k f d)
  assume inv: "adapter_inv s"
  show ?thesis
  proof (cases "k < length (pending s)")
    case True
    let ?s = "s \<lparr> pending := take k (pending s) @ drop (Suc k) (pending s) \<rparr>"
    obtain v where v: "result (analyze (pd_mode (pending s ! k)) f d (pd_req (pending s ! k))) = Inr v"
      using analyze_result by blast
    from inv have "p_mode (practice_c ?s) = cloud" by (simp add: adapter_inv_def)
    then have "p_mode (practice_c (resume (pending s ! k) f d ?s)) = cloud"
      by (rule resume_p_mode)
    moreover from inv have "list_all pending_ok (pending (resume (pending s ! k) f d ?s))"
      by (simp add: resume_fields [OF v] adapter_inv_def list_all_remove del: list_all_append)
    ultimately show ?thesis using True Settled by (simp add: adapter_inv_def)
  next
    case False
    with inv Settled show ?thesis by simp
  qed
qed (auto simp add: adapter_inv_def setScreen_fields onAnalyzeClick_def Let_def pending_ok_def
      new_request_def start_def stop_def tick_def)

lemma adapter_inv_run: "adapter_inv s \<Longrightarrow> adapter_inv (run s es)"
  unfolding run_def by (induction es arbitrary: s) (simp_all add: adapter_inv_step)

lemma adapter_inv_initial: "adapter_inv initial"
  by (simp add: adapter_inv_def initial_def mount_Practice_def DEFAULT_MODE_def)

lemma reachable_inv: "adapter_inv (run initial es)"
  by (simp add: adapter_inv_run adapter_inv_initial)

lemma run_Nil: "run s [] = s"
  by (simp add: run_def)

lemma run_Cons: "run s (e # es) = run (step s e) es"
  by (simp add: run_def)

lemma practice_opened:
  "run initial [Toggle, StartPractice] =
     initial \<lparr> app_mode := mock, screen := practice, practice_c := mount_Practice 0, mounts := 1 \<rparr>"
  by (simp add: run_Cons run_Nil initial_def setScreen_def DEFAULT_MODE_def)

text \<open>
  Claim C2. The claim holds of the program as it is meant and fails on the code. The
  Toggle button flips the \<open>mode\<close> state of \<^verbatim>\<open>App\<close>, which the header shows;
  \<^verbatim>\<open>Practice\<close> takes \<^verbatim>\<open>analyze\<close> from its own call of \<^verbatim>\<open>useAnalysisAdapter()\<close>,
  whose \<open>mode\<close> state is \<open>cloud\<close> from mounting on and is never set. After
  Toggle, Start Practice and Analyze Speech the indicator shows mock, the waiting call
  closed over \<open>cloud\<close>, and one POST has been sent at the click, where
  \<^verbatim>\<open>analyze\<close> in mock mode would have sent none; with a service that answers, the
  session shows the answer of the service.
\<close>

theorem toggle_not_seen_by_analyze:
  "app_mode (run initial [Toggle, StartPractice, AnalyzeClick r]) = mock \<and>
   pd_mode (hd (pending (run initial [Toggle, StartPractice, AnalyzeClick r]))) = cloud \<and>
   app_mode (run initial [Toggle, StartPractice, AnalyzeClick r, Settled 0 f d]) = mock \<and>
   network (run initial [Toggle, StartPractice, AnalyzeClick r, Settled 0 f d]) =
     [(ANALYZE_URL, request_body (new_request (mount_Practice 0) (new_sid r)))] \<and>
   result (analyze mock f d (new_request (mount_Practice 0) (new_sid r))) =
     Inr (response_object (mockAnalyze d (new_request (mount_Practice 0) (new_sid r)))) \<and>
   posts (analyze mock f d (new_request (mount_Practice 0) (new_sid r))) = [] \<and>
   analysis (run initial [Toggle, StartPractice, AnalyzeClick random36,
                         Settled 0 (replies 200 (Some nested_body)) example_draws]) = nested_body \<and>
   network (run initial [Toggle, StartPractice, AnalyzeClick r]) =
     [(ANALYZE_URL, request_body (new_request (mount_Practice 0) (new_sid r)))]"
proof -
  let ?p = "mount_Practice 0"
  have s2: "run initial [Toggle, StartPractice] =
      initial \<lparr> app_mode := mock, screen := practice, practice_c := ?p, mounts := 1 \<rparr>"
    by (rule practice_opened)
  have s3: "run initial [Toggle, StartPractice, AnalyzeClick x] =
      initial \<lparr> app_mode := mock, screen := practice,
        practice_c := ?p \<lparr> loading := True, p_error := None \<rparr>, mounts := 1,
        pending := [\<lparr> owner = 0, pd_mode = cloud, pd_sid = new_sid x,
                      pd_req = new_request ?p (new_sid x) \<rparr>],
        network := [(ANALYZE_URL, request_body (new_request ?p (new_sid x)))] \<rparr>" for x
    by (simp add: run_Cons run_Nil initial_def setScreen_def DEFAULT_MODE_def onAnalyzeClick_def
        Let_def mount_Practice_def analyze_sends_def)
  obtain v where v: "result (analyze cloud f d (new_request ?p (new_sid r))) = Inr v"
    using analyze_result by blast
  have run4: "run initial [Toggle, StartPractice, AnalyzeClick x, Settled 0 g y] =
      step (run initial [Toggle, StartPractice, AnalyzeClick x]) (Settled 0 g y)" for x g y
    by (simp add: run_def)
  have a: "app_mode (run initial [Toggle, StartPractice, AnalyzeClick r]) = mock"
    and b: "pd_mode (hd (pending (run initial [Toggle, StartPractice, AnalyzeClick r]))) = cloud"
    unfolding s3 by simp_all
  have c: "app_mode (run initial [Toggle, StartPractice, AnalyzeClick r, Settled 0 f d]) = mock"
    and n: "network (run initial [Toggle, StartPractice, AnalyzeClick r, Settled 0 f d]) =
     [(ANALYZE_URL, request_body (new_request ?p (new_sid r)))]"
    unfolding run4 s3 using v
    by (simp_all add: resume_fields)
  have w: "network (run initial [Toggle, StartPractice, AnalyzeClick r]) =
     [(ANALYZE_URL, request_body (new_request ?p (new_sid r)))]"
    unfolding s3 by simp
  have m: "result (analyze mock f d (new_request ?p (new_sid r))) =
     Inr (response_object (mockAnalyze d (new_request ?p (new_sid r))))"
    and mp: "posts (analyze mock f d (new_request ?p (new_sid r))) = []"
    by (simp_all add: analyze_def)
  have "result (analyze cloud (replies 200 (Some nested_body)) example_draws
         (new_request ?p (new_sid random36))) = Inr nested_body"
    by (simp add: analyze_def Let_def replies_ok normalize_scores_object own_prop_def
        nested_body_def)
  then have e: "analysis (run initial [Toggle, StartPractice, AnalyzeClick random36,
      Settled 0 (replies 200 (Some nested_body)) example_draws]) = nested_body"
    unfolding run4 s3 by (simp add: resume_fields)
  from a b c n m mp e w show ?thesis by blast
qed

lemma step_AnalyzeClick_pending:
  assumes "screen s = practice" and "\<not> loading (practice_c s)"
  shows "pending (step s (AnalyzeClick r)) =
           pending s @ [\<lparr> owner = inst (practice_c s), pd_mode = p_mode (practice_c s),
                          pd_sid = new_sid r, pd_req = new_request (practice_c s) (new_sid r) \<rparr>]"
    and "screen (step s (AnalyzeClick r)) = practice"
    and "network (step s (AnalyzeClick r)) =
           network s @ analyze_sends (p_mode (practice_c s)) (new_request (practice_c s) (new_sid r))"
  using assms by (simp_all add: onAnalyzeClick_def Let_def)

lemma step_Settled:
  assumes "k < length (pending s)"
    and "result (analyze (pd_mode (pending s ! k)) f d (pd_req (pending s ! k))) = Inr v"
  shows "screen (step s (Settled k f d)) = session"
    and "app_sessionId (step s (Settled k f d)) = pd_sid (pending s ! k)"
    and "analysis (step s (Settled k f d)) = v"
  using assms by (simp_all add: resume_fields)

text \<open>
  Claim C6. The first screen is the dashboard, and Start Practice there makes Practice
  the active screen. From Practice, a submitted analysis that completes (by the answer
  of the service or by the fallback) makes Session the active screen, with the session
  identifier generated for that request and the response \<^verbatim>\<open>analyze\<close> produced. So
  does every call that waits in a reachable state, whatever happened since it was
  submitted.
\<close>

theorem screen_transitions:
  "screen initial = dashboard \<and>
   screen (step initial StartPractice) = practice \<and>
   (screen s = practice \<and> \<not> loading (practice_c s) \<longrightarrow>
      screen (step (step s (AnalyzeClick r)) (Settled (length (pending s)) f d)) = session \<and>
      app_sessionId (step (step s (AnalyzeClick r)) (Settled (length (pending s)) f d)) = new_sid r \<and>
      sessionId (new_request (practice_c s) (new_sid r)) = new_sid r \<and>
      result (analyze (p_mode (practice_c s)) f d (new_request (practice_c s) (new_sid r))) =
        Inr (analysis (step (step s (AnalyzeClick r)) (Settled (length (pending s)) f d)))) \<and>
   (k < length (pending (run initial es)) \<longrightarrow>
      screen (step (run initial es) (Settled k f d)) = session \<and>
      app_sessionId (step (run initial es) (Settled k f d)) =
        sessionId (pd_req (pending (run initial es) ! k)) \<and>
      result (analyze (pd_mode (pending (run initial es) ! k)) f d
                (pd_req (pending (run initial es) ! k))) =
        Inr (analysis (step (run initial es) (Settled k f d))))"
proof (intro conjI impI)
  show "screen initial = dashboard"
    by (simp add: initial_def)
  show "screen (step initial StartPractice) = practice"
    by (simp add: initial_def setScreen_fields)
next
  assume h: "screen s = practice \<and> \<not> loading (practice_c s)"
  let ?q = "new_request (practice_c s) (new_sid r)"
  let ?s1 = "step s (AnalyzeClick r)"
  from h have p: "pending ?s1 = pending s @ [\<lparr> owner = inst (practice_c s),
      pd_mode = p_mode (practice_c s), pd_sid = new_sid r, pd_req = ?q \<rparr>]"
    by (intro step_AnalyzeClick_pending) simp_all
  then have k: "length (pending s) < length (pending ?s1)"
    and pd: "pending ?s1 ! length (pending s) = \<lparr> owner = inst (practice_c s),
      pd_mode = p_mode (practice_c s), pd_sid = new_sid r, pd_req = ?q \<rparr>"
    by simp_all
  obtain v where v: "result (analyze (p_mode (practice_c s)) f d ?q) = Inr v"
    using analyze_result by blast
  then have v': "result (analyze (pd_mode (pending ?s1 ! length (pending s))) f d
      (pd_req (pending ?s1 ! length (pending s)))) = Inr v"
    by (simp add: pd del: step.simps)
  from step_Settled [OF k v'] v
  show "screen (step ?s1 (Settled (length (pending s)) f d)) = session"
    and "app_sessionId (step ?s1 (Settled (length (pending s)) f d)) = new_sid r"
    and "result (analyze (p_mode (practice_c s)) f d ?q) =
        Inr (analysis (step ?s1 (Settled (length (pending s)) f d)))"
    by (simp_all add: pd del: step.simps)
  show "sessionId ?q = new_sid r"
    by (simp add: new_request_def)
next
  let ?s = "run initial es"
  assume k: "k < length (pending ?s)"
  obtain v where v: "result (analyze (pd_mode (pending ?s ! k)) f d (pd_req (pending ?s ! k))) = Inr v"
    using analyze_result by blast
  have "list_all pending_ok (pending ?s)"
    using reachable_inv [of es] by (simp add: adapter_inv_def)
  with k have "pending_ok (pending ?s ! k)"
    by (simp add: list_all_length)
  then have sid: "sessionId (pd_req (pending ?s ! k)) = pd_sid (pending ?s ! k)"
    by (simp add: pending_ok_def)
  from step_Settled [OF k v] v sid
  show "screen (step ?s (Settled k f d)) = session"
    and "app_sessionId (step ?s (Settled k f d)) = sessionId (pd_req (pending ?s ! k))"
    and "result (analyze (pd_mode (pending ?s ! k)) f d (pd_req (pending ?s ! k))) =
        Inr (analysis (step ?s (Settled k f d)))"
    by (simp_all del: step.simps)
qed

theorem screen_transitions_witness:
  "screen (step initial StartPractice) = practice \<and>
   \<not> loading (practice_c (step initial StartPractice)) \<and>
   screen (step (step (step initial StartPractice) (AnalyzeClick random36))
                (Settled 0 unreachable example_draws)) = session \<and>
   app_sessionId (step (step (step initial StartPractice) (AnalyzeClick random36))
                (Settled 0 unreachable example_draws)) = ''sess_k3x9ab'' \<and>
   (0::nat) < length (pending (run initial [StartPractice, AnalyzeClick random36])) \<and>
   screen (step (run initial [StartPractice, AnalyzeClick random36])
                (Settled 0 (replies 200 (Some nested_body)) example_draws)) = session"
proof -
  have s1: "step initial StartPractice =
      initial \<lparr> screen := practice, practice_c := mount_Practice 0, mounts := 1 \<rparr>"
    by (simp add: initial_def setScreen_def)
  have a: "screen (step initial StartPractice) = practice \<and>
      \<not> loading (practice_c (step initial StartPractice))"
    and l: "length (pending (step initial StartPractice)) = 0"
    unfolding s1 by (simp_all add: mount_Practice_def initial_def)
  have r: "run initial [StartPractice, AnalyzeClick random36] =
      step (step initial StartPractice) (AnalyzeClick random36)"
    by (simp add: run_def)
  have b: "(0::nat) < length (pending (run initial [StartPractice, AnalyzeClick random36]))"
    unfolding r s1 by (simp add: onAnalyzeClick_def Let_def mount_Practice_def initial_def)
  have n: "new_sid random36 = ''sess_k3x9ab''"
    by (simp add: new_sid_def random36_def)
  from screen_transitions [of "step initial StartPractice" random36 unreachable example_draws 0
      "[StartPractice, AnalyzeClick random36]"] a b l n
    screen_transitions [of "step initial StartPractice" random36
      "replies 200 (Some nested_body)" example_draws 0 "[StartPractice, AnalyzeClick random36]"]
  show ?thesis by (simp del: step.simps)
qed

text \<open>
  Claim C7, as amended. The submit action builds a request with a newly generated
  session identifier (\<^verbatim>\<open>sess_\<close> and up to six characters), the current motion text,
  the selected side, and as duration the elapsed seconds when they are not zero and
  420 exactly when they are zero. They are zero in a newly mounted component, where
  the timer never ran, and also after Record until the first tick; the interval counts
  only while the timer runs.
\<close>

theorem submit_request:
  "(screen s = practice \<and> \<not> loading (practice_c s) \<longrightarrow>
      (\<exists>pd. pending (step s (AnalyzeClick r)) = pending s @ [pd] \<and>
         pd_sid pd = ''sess_'' @ take 6 (drop 2 r) \<and>
         sessionId (pd_req pd) = pd_sid pd \<and>
         motion (pd_req pd) = motionTxt (practice_c s) \<and>
         side (pd_req pd) = p_side (practice_c s) \<and>
         uid (pd_req pd) = Some ''demo-user'' \<and>
         durationSec (pd_req pd) =
           (if seconds (practice_c s) = 0 then 420 else real (seconds (practice_c s))) \<and>
         (durationSec (pd_req pd) \<noteq> real (seconds (practice_c s))) = (seconds (practice_c s) = 0))) \<and>
   seconds (mount_Practice i) = 0 \<and>
   seconds (start p) = 0 \<and>
   seconds (tick p) = Suc (seconds p) \<and>
   (\<not> timerRef (practice_c s) \<longrightarrow> practice_c (step s Tick) = practice_c s)"
proof (intro conjI impI)
  assume h: "screen s = practice \<and> \<not> loading (practice_c s)"
  let ?pd = "\<lparr> owner = inst (practice_c s), pd_mode = p_mode (practice_c s),
      pd_sid = new_sid r, pd_req = new_request (practice_c s) (new_sid r) \<rparr>"
  from h have p: "pending (step s (AnalyzeClick r)) = pending s @ [?pd]"
    by (intro step_AnalyzeClick_pending) simp_all
  show "\<exists>pd. pending (step s (AnalyzeClick r)) = pending s @ [pd] \<and>
         pd_sid pd = ''sess_'' @ take 6 (drop 2 r) \<and>
         sessionId (pd_req pd) = pd_sid pd \<and>
         motion (pd_req pd) = motionTxt (practice_c s) \<and>
         side (pd_req pd) = p_side (practice_c s) \<and>
         uid (pd_req pd) = Some ''demo-user'' \<and>
         durationSec (pd_req pd) =
           (if seconds (practice_c s) = 0 then 420 else real (seconds (practice_c s))) \<and>
         (durationSec (pd_req pd) \<noteq> real (seconds (practice_c s))) = (seconds (practice_c s) = 0)"
  proof (intro exI conjI)
    show "pending (step s (AnalyzeClick r)) = pending s @ [?pd]"
      by (rule p)
  qed (simp_all add: new_request_def new_sid_def)
qed (simp_all add: mount_Practice_def start_def tick_def)

theorem submit_request_witness:
  "screen (run initial [StartPractice, RecordClick, Tick, Tick, StopClick]) = practice \<and>
   seconds (practice_c (run initial [StartPractice, RecordClick, Tick, Tick, StopClick])) = 2 \<and>
   durationSec (pd_req (hd (pending
     (step (run initial [StartPractice, RecordClick, Tick, Tick, StopClick])
        (AnalyzeClick random36))))) = 2 \<and>
   pd_sid (hd (pending
     (step (run initial [StartPractice, RecordClick, Tick, Tick, StopClick])
        (AnalyzeClick random36)))) = ''sess_k3x9ab''"
proof -
  have s: "run initial [StartPractice, RecordClick, Tick, Tick, StopClick] =
      initial \<lparr> screen := practice,
        practice_c := (mount_Practice 0) \<lparr> seconds := 2 \<rparr>, mounts := 1 \<rparr>"
    by (simp add: run_def initial_def setScreen_def mount_Practice_def start_def stop_def tick_def)
  have a: "screen (run initial [StartPractice, RecordClick, Tick, Tick, StopClick]) = practice"
    and b: "\<not> loading (practice_c (run initial [StartPractice, RecordClick, Tick, Tick, StopClick]))"
    and c: "seconds (practice_c (run initial [StartPractice, RecordClick, Tick, Tick, StopClick])) = 2"
    and e: "pending (run initial [StartPractice, RecordClick, Tick, Tick, StopClick]) = []"
    unfolding s by (simp_all add: mount_Practice_def initial_def)
  from submit_request [of "run initial [StartPractice, RecordClick, Tick, Tick, StopClick]"
      random36 0 "mount_Practice 0"] a b c e
  show ?thesis
    by (auto simp add: random36_def simp del: step.simps)
qed

text \<open>
  Claim C7 as stated fails: after Start Practice and Record the timer runs, no second
  has elapsed, and the request carries 420, not the elapsed value 0.
\<close>

theorem fallback_while_recording:
  "isRecording (practice_c (run initial [StartPractice, RecordClick])) \<and>
   timerRef (practice_c (run initial [StartPractice, RecordClick])) \<and>
   seconds (practice_c (run initial [StartPractice, RecordClick])) = 0 \<and>
   durationSec (pd_req (hd (pending
     (run initial [StartPractice, RecordClick, AnalyzeClick random36])))) = 420"
  by (simp add: run_def initial_def setScreen_def mount_Practice_def start_def onAnalyzeClick_def
      Let_def new_request_def)

end
